theory Spec2Isabelle
  imports Main "HOL-Library.Word" "HOL-Library.Sublist"
begin

unbundle bit_operations_syntax

section \<open>The upload engine of decomposedfs (package upload)\<close>

text \<open>
  A shallow embedding of \<^verbatim>\<open>Upload\<close> and its methods \<^verbatim>\<open>WriteChunk\<close>,
  \<^verbatim>\<open>FinishUpload\<close>, \<^verbatim>\<open>Terminate\<close>, \<^verbatim>\<open>ConcatUploads\<close>, \<^verbatim>\<open>Finalize\<close>,
  \<^verbatim>\<open>checkHash\<close>, \<^verbatim>\<open>cleanup\<close> and \<^verbatim>\<open>URL\<close>. A method with a pointer receiver takes
  the upload and the state of the disk and returns both updated, together with its
  Go result. A Go \<^verbatim>\<open>error\<close> result is an \<open>error option\<close> (\<open>None\<close> is \<^verbatim>\<open>nil\<close>).
  The result of \<^verbatim>\<open>ConcatUploads\<close> lies in one more \<open>option\<close>, whose \<open>None\<close> is a call
  that does not return.
\<close>

subsection \<open>Data\<close>

type_synonym byte = "8 word"
type_synonym int64 = "64 word"
type_synonym path = string

text \<open>The error values the code tells apart, the wrapping of \<^verbatim>\<open>errors.Wrap\<close>, and any
  other error.\<close>

datatype error =
    ErrUnexpectedEOF
  | ErrNotExist
  | ErrInvalid
  | ChecksumMismatch string
  | Wrap string error
  | IOError string

text \<open>\<^verbatim>\<open>errors.Is\<close>: the error or one it wraps is the target.\<close>

fun errors_Is :: "error \<Rightarrow> error \<Rightarrow> bool" where
  "errors_Is (Wrap m e) t = (Wrap m e = t \<or> errors_Is e t)"
| "errors_Is e t = (e = t)"

text \<open>\<^verbatim>\<open>tus.Session\<close>, with the fields this file reads and writes.\<close>

record session =
  ID :: string
  BinPath :: path
  Offset :: int64
  Size :: int64
  SizeIsDeferred :: bool
  ChecksumSHA1 :: string
  ChecksumMD5 :: string
  ChecksumADLER32 :: string
  SpaceRoot :: string
  NodeID :: string
  VersionsPath :: path
  LockID :: string
  Filename :: string
  SizeDiff :: int64

text \<open>\<^verbatim>\<open>node.Node\<close>: its identity and the two paths \<^verbatim>\<open>InternalPath()\<close> and
  \<^verbatim>\<open>ParentPath()\<close> give.\<close>

record node =
  node_SpaceID :: string
  node_ID :: string
  node_Name :: string
  node_InternalPath :: path
  node_ParentPath :: path

type_synonym attributes = "string \<rightharpoonup> byte list"

record ctx_values =
  ctx_LockID :: "string option"
  ctx_User :: "string option"

record token_options =
  DownloadEndpoint :: string
  DataGatewayEndpoint :: string
  TransferSharedSecret :: string
  TransferExpires :: int64

text \<open>\<^verbatim>\<open>Upload\<close>. The publisher is an interface value: \<open>None\<close> is \<^verbatim>\<open>nil\<close>. The lookup,
  the tree and the logger are handles on the state below.\<close>

record upload =
  Ctx :: ctx_values
  Session :: session
  Node :: "node option"
  pub :: "string option"
  async :: bool
  tknopts :: token_options

datatype log_entry = LogInfo string | LogError string

text \<open>The calls that leave this package: the node commit, the event bus, the tree.\<close>

datatype call =
    CallCreateNodeForUpload attributes
  | CallPublish string string
  | CallReadNode string string
  | CallWriteBlob node path
  | CallPropagate node int64
  | CallUnmarkProcessing node string

text \<open>
  The state outside the upload: the files by path (staging files, node entries, links
  in parent directories, version snapshots), the metadata attributes kept for a path,
  the durable session records by upload id, the log, and the calls made so far.
\<close>

record world =
  files :: "path \<rightharpoonup> byte list"
  attrs :: "path \<rightharpoonup> attributes"
  sessions :: "string \<rightharpoonup> session"
  logs :: "log_entry list"
  calls :: "call list"

text \<open>A stream as \<^verbatim>\<open>io.Copy\<close> sees it: the bytes it delivers, then end of file
  (\<open>None\<close>) or an error.\<close>

record reader =
  rdata :: "byte list"
  rerr :: "error option"

text \<open>The attribute names of package \<^verbatim>\<open>prefixes\<close>, which is not part of these sources:
  they are taken as given.\<close>

record prefixes =
  ChecksumPrefix :: string
  TypeAttr :: string
  BlobIDAttr :: string
  BlobsizeAttr :: string
  MTimeAttr :: string

text \<open>
  What the surroundings decide: which operation on the disk, the tree, the session
  store, the token signer or the event bus fails and how, and the two digests of the
  standard library that are not written out here. An operation on a file may fail
  depending on the state it meets; \<open>(k, e)\<close> is a failure with \<open>e\<close> once \<open>k\<close> bytes
  went through.
\<close>

record env =
  open_fault :: "world \<Rightarrow> path \<Rightarrow> error option"
  read_fault :: "world \<Rightarrow> path \<Rightarrow> (nat \<times> error) option"
  write_fault :: "world \<Rightarrow> path \<Rightarrow> (nat \<times> error) option"
  remove_fault :: "path \<Rightarrow> error option"
  removeAll_fault :: "path \<Rightarrow> error option"
  removeItem_fault :: "path \<Rightarrow> error option"
  copyMetadata_fault :: "path \<Rightarrow> path \<Rightarrow> error option"
  purge_fault :: "string \<Rightarrow> error option"
  persist_fault :: "string \<Rightarrow> error option"
  createNode_result :: "session \<Rightarrow> error + node"
  sign_result :: "string \<Rightarrow> error + string"
  publish_fault :: "string \<Rightarrow> error option"
  readNode_result :: "string \<Rightarrow> string \<Rightarrow> error + node"
  writeBlob_fault :: "node \<Rightarrow> path \<Rightarrow> error option"
  propagate_fault :: "node \<Rightarrow> int64 \<Rightarrow> error option"
  unmark_fault :: "node \<Rightarrow> error option"
  sha1_Sum :: "byte list \<Rightarrow> byte list"
  md5_Sum :: "byte list \<Rightarrow> byte list"
  names :: prefixes

subsection \<open>Logging and the record of outside calls\<close>

definition logInfo :: "string \<Rightarrow> world \<Rightarrow> world" where
  "logInfo m w = w\<lparr>logs := logs w @ [LogInfo m]\<rparr>"

definition logError :: "string \<Rightarrow> world \<Rightarrow> world" where
  "logError m w = w\<lparr>logs := logs w @ [LogError m]\<rparr>"

definition called :: "call \<Rightarrow> world \<Rightarrow> world" where
  "called c w = w\<lparr>calls := calls w @ [c]\<rparr>"

subsection \<open>Files\<close>

text \<open>\<^verbatim>\<open>os.OpenFile(path, O_WRONLY|O_APPEND, perm)\<close>: without \<^verbatim>\<open>O_CREATE\<close> a missing
  file is an error. The result stands for the open file: the content writes append to.\<close>

definition os_OpenFile_append :: "env \<Rightarrow> world \<Rightarrow> path \<Rightarrow> error + byte list" where
  "os_OpenFile_append ev w p =
     (case open_fault ev w p of
        Some e \<Rightarrow> Inl e
      | None \<Rightarrow> (case files w p of None \<Rightarrow> Inl ErrNotExist | Some c \<Rightarrow> Inr c))"

text \<open>\<^verbatim>\<open>os.Open(path)\<close>: the file as a stream of its content at that moment, cut short
  by an error where reading fails.\<close>

definition os_Open :: "env \<Rightarrow> world \<Rightarrow> path \<Rightarrow> error + reader" where
  "os_Open ev w p =
     (case open_fault ev w p of
        Some e \<Rightarrow> Inl e
      | None \<Rightarrow>
          (case files w p of
             None \<Rightarrow> Inl ErrNotExist
           | Some c \<Rightarrow>
               (case read_fault ev w p of
                  None \<Rightarrow> Inr \<lparr>rdata = c, rerr = None\<rparr>
                | Some (k, e) \<Rightarrow> Inr \<lparr>rdata = take k c, rerr = Some e\<rparr>)))"

text \<open>
  \<^verbatim>\<open>io.Copy(dst, src)\<close>: copies until end of file on \<open>src\<close> or the first error, and
  returns what was written and that error; end of file is no error. The first argument
  says whether writing to \<open>dst\<close> fails, and after how many bytes.
\<close>

definition io_Copy :: "(nat \<times> error) option \<Rightarrow> reader \<Rightarrow> byte list \<times> error option" where
  "io_Copy wfault src =
     (case wfault of
        None \<Rightarrow> (rdata src, rerr src)
      | Some (k, e) \<Rightarrow>
          if k < length (rdata src) then (take k (rdata src), Some e)
          else (rdata src, rerr src))"

definition append_file :: "path \<Rightarrow> byte list \<Rightarrow> world \<Rightarrow> world" where
  "append_file p bs w =
     (case files w p of
        None \<Rightarrow> w
      | Some c \<Rightarrow> w\<lparr>files := (files w)(p \<mapsto> c @ bs)\<rparr>)"

text \<open>\<^verbatim>\<open>os.Remove(path)\<close>: a missing file is the error \<^verbatim>\<open>fs.ErrNotExist\<close>.\<close>

definition os_Remove :: "env \<Rightarrow> path \<Rightarrow> world \<Rightarrow> error option \<times> world" where
  "os_Remove ev p w =
     (case remove_fault ev p of
        Some e \<Rightarrow> (Some e, w)
      | None \<Rightarrow>
          (case files w p of
             None \<Rightarrow> (Some ErrNotExist, w)
           | Some c \<Rightarrow> (None, w\<lparr>files := (files w)(p := None)\<rparr>)))"

text \<open>A path is \<open>p\<close> or lies below it.\<close>

definition is_under :: "path \<Rightarrow> path \<Rightarrow> bool" where
  "is_under p q = (q = p \<or> prefix (p @ ''/'') q)"

text \<open>\<^verbatim>\<open>os.RemoveAll(path)\<close>: removes the path and all below it, with their metadata;
  a missing path is no error.\<close>

definition os_RemoveAll :: "env \<Rightarrow> path \<Rightarrow> world \<Rightarrow> error option \<times> world" where
  "os_RemoveAll ev p w =
     (case removeAll_fault ev p of
        Some e \<Rightarrow> (Some e, w)
      | None \<Rightarrow>
          (None, w\<lparr>files := (\<lambda>q. if is_under p q then None else files w q),
                   attrs := (\<lambda>q. if is_under p q then None else attrs w q)\<rparr>))"

subsection \<open>Writing a chunk\<close>

text \<open>
  \<^verbatim>\<open>WriteChunk\<close> (lines 138 to 170). The bytes \<^verbatim>\<open>io.Copy\<close> wrote are in the staging
  file whatever its error was; the count is an \<^verbatim>\<open>int64\<close>.
\<close>

definition WriteChunk ::
  "env \<Rightarrow> world \<Rightarrow> upload \<Rightarrow> int64 \<Rightarrow> reader \<Rightarrow> (int64 \<times> error option) \<times> world \<times> upload" where
  "WriteChunk ev w u offset src =
     (case os_OpenFile_append ev w (BinPath (Session u)) of
        Inl err \<Rightarrow> ((0, Some err), w, u)
      | Inr file \<Rightarrow>
          (let (written, err) = io_Copy (write_fault ev w (BinPath (Session u))) src;
               n = (of_nat (length written) :: int64);
               w' = append_file (BinPath (Session u)) written w
           in if err \<noteq> None \<and> err \<noteq> Some ErrUnexpectedEOF then ((n, err), w', u)
              else ((n, None), w',
                    u\<lparr>Session := (Session u)\<lparr>Offset := Offset (Session u) + n\<rparr>\<rparr>)))"

text \<open>Modelled from the spec: \<^verbatim>\<open>Session.Persist\<close> belongs to package \<^verbatim>\<open>tus\<close>, which is
  missing from these sources; it writes the durable session record, synchronously,
  under the upload id.\<close>

definition Session_Persist :: "env \<Rightarrow> session \<Rightarrow> world \<Rightarrow> error option \<times> world" where
  "Session_Persist ev s w =
     (case persist_fault ev (ID s) of
        Some e \<Rightarrow> (Some e, w)
      | None \<Rightarrow> (None, w\<lparr>sessions := (sessions w)(ID s \<mapsto> s)\<rparr>))"

text \<open>\<^verbatim>\<open>DeclareLength\<close> (lines 294 to 298).\<close>

definition DeclareLength ::
  "env \<Rightarrow> world \<Rightarrow> upload \<Rightarrow> int64 \<Rightarrow> error option \<times> world \<times> upload" where
  "DeclareLength ev w u len =
     (let u' = u\<lparr>Session := (Session u)\<lparr>Size := len, SizeIsDeferred := False\<rparr>\<rparr>;
          (err, w') = Session_Persist ev (Session u') w
      in (err, w', u'))"

subsection \<open>Concatenation\<close>

text \<open>The first \<open>n\<close> bytes of the content \<open>c\<close> read again and again.\<close>

definition repeated :: "nat \<Rightarrow> byte list \<Rightarrow> byte list" where
  "repeated n c = take n (concat (replicate n c))"

text \<open>
  \<^verbatim>\<open>io.Copy(file, src)\<close> in the loop of \<^verbatim>\<open>ConcatUploads\<close> (line 317): \<^verbatim>\<open>file\<close> is the
  destination, open for appending, and \<^verbatim>\<open>src\<close> the staging file of a part at the path
  \<open>p\<close>, open for reading. A part staged in another file than the destination, or in
  an empty file, delivers the content it had when it was opened. A part staged in the
  file of the destination itself, that file not being empty, never comes to its end:
  every byte the copy appends is one more byte for it to read, so it reads the content
  again and again. Such a copy ends only where reading or writing fails, and does not
  return where nothing fails: that is the result \<open>None\<close>.
\<close>

definition io_Copy_file ::
  "env \<Rightarrow> world \<Rightarrow> path \<Rightarrow> path \<Rightarrow> reader \<Rightarrow> (byte list \<times> error option) option" where
  "io_Copy_file ev w dst p src =
     (case files w p of
        None \<Rightarrow> Some (io_Copy (write_fault ev w dst) src)
      | Some c \<Rightarrow>
          if p = dst \<and> c \<noteq> [] then
            (case read_fault ev w p of
               Some (k, e) \<Rightarrow>
                 Some (io_Copy (write_fault ev w dst) \<lparr>rdata = repeated k c, rerr = Some e\<rparr>)
             | None \<Rightarrow>
                 (case write_fault ev w dst of
                    Some (k, e) \<Rightarrow> Some (repeated k c, Some e)
                  | None \<Rightarrow> None))
          else Some (io_Copy (write_fault ev w dst) src))"

text \<open>
  The loop of \<^verbatim>\<open>ConcatUploads\<close> (lines 308 to 320) over the parts that are left. The
  result is \<open>None\<close> when the loop does not return.
\<close>

fun ConcatUploads_loop ::
  "env \<Rightarrow> path \<Rightarrow> world \<Rightarrow> upload list \<Rightarrow> (error option \<times> world) option" where
  "ConcatUploads_loop ev dst w [] = Some (None, w)"
| "ConcatUploads_loop ev dst w (fileUpload # rest) =
     (case os_Open ev w (BinPath (Session fileUpload)) of
        Inl err \<Rightarrow> Some (Some err, w)
      | Inr src \<Rightarrow>
          (case io_Copy_file ev w dst (BinPath (Session fileUpload)) src of
             None \<Rightarrow> None
           | Some (written, err) \<Rightarrow>
               (let w' = append_file dst written w
                in case err of
                     Some e \<Rightarrow> Some (Some e, w')
                   | None \<Rightarrow> ConcatUploads_loop ev dst w' rest)))"

text \<open>\<^verbatim>\<open>ConcatUploads\<close> (lines 301 to 323).\<close>

definition ConcatUploads ::
  "env \<Rightarrow> world \<Rightarrow> upload \<Rightarrow> upload list \<Rightarrow> (error option \<times> world) option" where
  "ConcatUploads ev w u uploads =
     (case os_OpenFile_append ev w (BinPath (Session u)) of
        Inl err \<Rightarrow> Some (Some err, w)
      | Inr file \<Rightarrow> ConcatUploads_loop ev (BinPath (Session u)) w uploads)"

subsection \<open>Digests and their comparison\<close>

text \<open>\<^verbatim>\<open>hex.EncodeToString\<close>: two digits of the table \<^verbatim>\<open>0123456789abcdef\<close> for each
  byte, the high four bits first.\<close>

definition hextable :: string where
  "hextable = ''0123456789abcdef''"

definition hex_byte :: "byte \<Rightarrow> string" where
  "hex_byte v = [hextable ! unat (drop_bit 4 v), hextable ! unat (v AND 0x0f)]"

definition hex_EncodeToString :: "byte list \<Rightarrow> string" where
  "hex_EncodeToString bs = concat (map hex_byte bs)"

text \<open>The verb \<^verbatim>\<open>%x\<close> of \<^verbatim>\<open>fmt.Sprintf\<close> on a string: the hexadecimal digits of its
  bytes.\<close>

definition fmt_x :: "string \<Rightarrow> string" where
  "fmt_x s = hex_EncodeToString (map of_char s)"

text \<open>A \<^verbatim>\<open>hash.Hash\<close>: the digest function and the bytes written to it so far.\<close>

record hash =
  alg :: "byte list \<Rightarrow> byte list"
  written :: "byte list"

definition hash_Write :: "hash \<Rightarrow> byte list \<Rightarrow> hash" where
  "hash_Write h bs = h\<lparr>written := written h @ bs\<rparr>"

definition hash_Sum :: "hash \<Rightarrow> byte list" where
  "hash_Sum h = alg h (written h)"

text \<open>
  \<^verbatim>\<open>hash/adler32\<close>: both sums modulo 65521, starting from 1 and 0, and the checksum
  \<open>b * 2^16 + a\<close> as four bytes, the highest first.
\<close>

fun adler32_update :: "nat \<times> nat \<Rightarrow> byte list \<Rightarrow> nat \<times> nat" where
  "adler32_update (a, b) [] = (a, b)"
| "adler32_update (a, b) (x # xs) =
     (let a' = (a + unat x) mod 65521
      in adler32_update (a', (b + a') mod 65521) xs)"

definition adler32_Sum :: "byte list \<Rightarrow> byte list" where
  "adler32_Sum bs =
     (let (a, b) = adler32_update (1, 0) bs;
          s = (of_nat (b * 65536 + a) :: 32 word)
      in [ucast (drop_bit 24 s), ucast (drop_bit 16 s), ucast (drop_bit 8 s), ucast s])"

definition sha1_New :: "env \<Rightarrow> hash" where
  "sha1_New ev = \<lparr>alg = sha1_Sum ev, written = []\<rparr>"

definition md5_New :: "env \<Rightarrow> hash" where
  "md5_New ev = \<lparr>alg = md5_Sum ev, written = []\<rparr>"

definition adler32_New :: hash where
  "adler32_New = \<lparr>alg = adler32_Sum, written = []\<rparr>"

text \<open>\<^verbatim>\<open>checkHash\<close> (lines 350 to 356).\<close>

definition checkHash :: "string \<Rightarrow> hash \<Rightarrow> error option" where
  "checkHash expected h =
     (let hash = hex_EncodeToString (hash_Sum h)
      in if expected \<noteq> hash
         then Some (ChecksumMismatch
                (''invalid checksum: expected '' @ expected @ '' got '' @ fmt_x hash))
         else None)"

subsection \<open>Cleanup\<close>

text \<open>Modelled from the spec: \<^verbatim>\<open>utils.RemoveItem\<close> is missing from these sources; it
  removes the storage entry of the node, here with what lies below it and its
  metadata.\<close>

definition utils_RemoveItem :: "env \<Rightarrow> path \<Rightarrow> world \<Rightarrow> error option \<times> world" where
  "utils_RemoveItem ev p w =
     (case removeItem_fault ev p of
        Some e \<Rightarrow> (Some e, w)
      | None \<Rightarrow>
          (None, w\<lparr>files := (\<lambda>q. if is_under p q then None else files w q),
                   attrs := (\<lambda>q. if is_under p q then None else attrs w q)\<rparr>))"

text \<open>Modelled from the spec: \<^verbatim>\<open>Lookup.CopyMetadata\<close> is missing from these sources;
  it copies the attributes the filter lets through from the source onto the target
  and leaves the other attributes of the target untouched. It fails when either has
  no metadata.\<close>

definition lookup_CopyMetadata ::
  "env \<Rightarrow> path \<Rightarrow> path \<Rightarrow> (string \<Rightarrow> byte list \<Rightarrow> byte list \<times> bool) \<Rightarrow> world
     \<Rightarrow> error option \<times> world" where
  "lookup_CopyMetadata ev src target filter_fn w =
     (case copyMetadata_fault ev src target of
        Some e \<Rightarrow> (Some e, w)
      | None \<Rightarrow>
          (case (attrs w src, attrs w target) of
             (Some sa, Some ta) \<Rightarrow>
               (None, w\<lparr>attrs := (attrs w)(target \<mapsto>
                  (\<lambda>k. case sa k of
                          None \<Rightarrow> ta k
                        | Some v \<Rightarrow>
                            (case filter_fn k v of
                               (v', True) \<Rightarrow> Some v'
                             | (v', False) \<Rightarrow> ta k)))\<rparr>)
           | _ \<Rightarrow> (Some ErrNotExist, w)))"

text \<open>Modelled from the spec: \<^verbatim>\<open>Session.Purge\<close> is missing from these sources; it
  deletes the durable session record, and a record that is absent already is the
  error \<^verbatim>\<open>fs.ErrNotExist\<close>, which the caller lets pass.\<close>

definition Session_Purge :: "env \<Rightarrow> session \<Rightarrow> world \<Rightarrow> error option \<times> world" where
  "Session_Purge ev s w =
     (case purge_fault ev (ID s) of
        Some e \<Rightarrow> (Some e, w)
      | None \<Rightarrow>
          (case sessions w (ID s) of
             None \<Rightarrow> (Some ErrNotExist, w)
           | Some r \<Rightarrow> (None, w\<lparr>sessions := (sessions w)(ID s := None)\<rparr>)))"

text \<open>\<^verbatim>\<open>strings.Split(p, "/")\<close> and \<^verbatim>\<open>strings.Join(es, "/")\<close>.\<close>

fun split_slash :: "string \<Rightarrow> string list" where
  "split_slash [] = [[]]"
| "split_slash (c # cs) =
     (if c = CHR ''/'' then [] # split_slash cs
      else (case split_slash cs of
              [] \<Rightarrow> [[c]]
            | x # xs \<Rightarrow> (c # x) # xs))"

fun join_slash :: "string list \<Rightarrow> string" where
  "join_slash [] = []"
| "join_slash [x] = x"
| "join_slash (x # y # ys) = x @ ''/'' @ join_slash (y # ys)"

text \<open>
  The elements \<^verbatim>\<open>filepath.Clean\<close> keeps: empty elements and \<^verbatim>\<open>.\<close> are dropped, \<^verbatim>\<open>..\<close>
  takes away the element before it, is dropped at the root of a rooted path and is
  kept at the start of any other path. The second argument holds the elements kept so
  far, the last one first.
\<close>

fun clean_elems :: "bool \<Rightarrow> string list \<Rightarrow> string list \<Rightarrow> string list" where
  "clean_elems rooted kept [] = rev kept"
| "clean_elems rooted kept (e # es) =
     (if e = [] \<or> e = ''.'' then clean_elems rooted kept es
      else if e = ''..'' then
        (case kept of
           [] \<Rightarrow> if rooted then clean_elems rooted kept es else clean_elems rooted [e] es
         | k # ks \<Rightarrow>
             if k = ''..'' then clean_elems rooted (e # kept) es
             else clean_elems rooted ks es)
      else clean_elems rooted (e # kept) es)"

text \<open>\<^verbatim>\<open>filepath.Clean\<close>, with the slash as the separator.\<close>

definition filepath_Clean :: "path \<Rightarrow> path" where
  "filepath_Clean p =
     (let rooted = (p \<noteq> [] \<and> hd p = CHR ''/'');
          out = (if rooted then ''/'' else []) @
                join_slash (clean_elems rooted [] (split_slash p))
      in if out = [] then ''.'' else out)"

text \<open>\<^verbatim>\<open>filepath.Join\<close> of two elements: the elements from the first one that is not
  empty on, joined by slashes and cleaned; the empty path when both are empty.\<close>

definition filepath_Join :: "path \<Rightarrow> path \<Rightarrow> path" where
  "filepath_Join a b =
     (if a \<noteq> [] then filepath_Clean (a @ ''/'' @ b)
      else if b \<noteq> [] then filepath_Clean b
      else [])"

text \<open>The filter \<^verbatim>\<open>cleanup\<close> hands to \<^verbatim>\<open>CopyMetadata\<close> (lines 378 to 384).\<close>

definition restore_filter :: "env \<Rightarrow> string \<Rightarrow> byte list \<Rightarrow> byte list \<times> bool" where
  "restore_filter ev attributeName v =
     (v, prefix (ChecksumPrefix (names ev)) attributeName \<or>
         attributeName = TypeAttr (names ev) \<or>
         attributeName = BlobIDAttr (names ev) \<or>
         attributeName = BlobsizeAttr (names ev) \<or>
         attributeName = MTimeAttr (names ev))"

text \<open>The node step of \<^verbatim>\<open>cleanup\<close>: the body of its first \<^verbatim>\<open>if\<close> (lines 361 to
  392), for the node \<open>n\<close> the upload holds.\<close>

definition cleanup_node :: "env \<Rightarrow> node \<Rightarrow> world \<Rightarrow> upload \<Rightarrow> world \<times> upload" where
  "cleanup_node ev n w u =
     (let p = VersionsPath (Session u)
      in if p = [] then
           (let (e1, w1) = utils_RemoveItem ev (node_InternalPath n) w;
                w2 = (case e1 of Some err \<Rightarrow> logInfo ''removing node failed'' w1 | None \<Rightarrow> w1);
                src = filepath_Join (node_ParentPath n) (node_Name n);
                (e2, w3) = os_Remove ev src w2;
                w4 = (case e2 of
                        Some err \<Rightarrow> logInfo ''removing node from parent failed'' w3
                      | None \<Rightarrow> w3)
            in (w4, u\<lparr>Node := None\<rparr>))
         else
           (let (e1, w1) =
                  lookup_CopyMetadata ev p (node_InternalPath n) (restore_filter ev) w;
                w2 = (case e1 of
                        Some err \<Rightarrow> logInfo ''renaming version node failed'' w1
                      | None \<Rightarrow> w1);
                (e2, w3) = os_RemoveAll ev p w2;
                w4 = (case e2 of
                        Some err \<Rightarrow> logInfo ''error removing version'' w3
                      | None \<Rightarrow> w3)
            in (w4, u)))"

text \<open>The staging step of \<^verbatim>\<open>cleanup\<close>: the body of its second \<^verbatim>\<open>if\<close> (lines 396
  to 398).\<close>

definition cleanup_bin :: "env \<Rightarrow> world \<Rightarrow> upload \<Rightarrow> world" where
  "cleanup_bin ev w u =
     (case os_Remove ev (BinPath (Session u)) w of
        (Some err, w') \<Rightarrow>
          if \<not> errors_Is err ErrNotExist
          then logError ''removing upload failed'' w' else w'
      | (None, w') \<Rightarrow> w')"

text \<open>The session step of \<^verbatim>\<open>cleanup\<close>: the body of its third \<^verbatim>\<open>if\<close> (lines 402 to
  404).\<close>

definition cleanup_info :: "env \<Rightarrow> world \<Rightarrow> upload \<Rightarrow> world" where
  "cleanup_info ev w u =
     (case Session_Purge ev (Session u) w of
        (Some err, w') \<Rightarrow>
          if \<not> errors_Is err ErrNotExist
          then logError ''removing upload info failed'' w' else w'
      | (None, w') \<Rightarrow> w')"

text \<open>\<^verbatim>\<open>cleanup\<close> (lines 359 to 406). It has no result: no error leaves it.\<close>

definition cleanup :: "env \<Rightarrow> bool \<Rightarrow> bool \<Rightarrow> bool \<Rightarrow> world \<Rightarrow> upload \<Rightarrow> world \<times> upload" where
  "cleanup ev cleanNode cleanBin cleanInfo w u =
     (let (w1, u1) =
            (case Node u of
               Some n \<Rightarrow> if cleanNode then cleanup_node ev n w u else (w, u)
             | None \<Rightarrow> (w, u));
          w2 = (if cleanBin then cleanup_bin ev w1 u1 else w1);
          w3 = (if cleanInfo then cleanup_info ev w2 u1 else w2)
      in (w3, u1))"

text \<open>\<^verbatim>\<open>Terminate\<close> (lines 288 to 291).\<close>

definition Terminate :: "env \<Rightarrow> world \<Rightarrow> upload \<Rightarrow> error option \<times> world \<times> upload" where
  "Terminate ev w u = (let (w', u') = cleanup ev True True True w u in (None, w', u'))"

text \<open>\<^verbatim>\<open>Cleanup\<close> (lines 124 to 135). \<^verbatim>\<open>Node.UnmarkProcessing\<close> is a call into
  package \<^verbatim>\<open>node\<close>.\<close>

definition Cleanup :: "env \<Rightarrow> world \<Rightarrow> upload \<Rightarrow> bool \<Rightarrow> bool \<Rightarrow> world \<times> upload" where
  "Cleanup ev w u failure keepUpload =
     (let (w1, u1) = cleanup ev failure (\<not> keepUpload) (\<not> keepUpload) w u
      in case Node u1 of
           None \<Rightarrow> (w1, u1)
         | Some n \<Rightarrow>
             (let w2 = called (CallUnmarkProcessing n (ID (Session u1))) w1
              in case unmark_fault ev n of
                   Some err \<Rightarrow> (logInfo ''unmarking processing failed'' w2, u1)
                 | None \<Rightarrow> (w2, u1)))"

subsection \<open>Token, event and post-processing\<close>

text \<open>\<^verbatim>\<open>joinurl\<close> (lines 437 to 448): a slash after every element but the last, unless
  the element ends in one.\<close>

fun joinurl :: "string list \<Rightarrow> string" where
  "joinurl [] = []"
| "joinurl [p] = p"
| "joinurl (p # q # ps) = p @ (if \<not> suffix ''/'' p then ''/'' else []) @ joinurl (q # ps)"

text \<open>\<^verbatim>\<open>URL\<close> (lines 409 to 434). Signing the claims is the signer's work; the text of
  the claims in the wrapping message is left out.\<close>

definition URL :: "env \<Rightarrow> upload \<Rightarrow> error + string" where
  "URL ev u =
     (let t = joinurl [DownloadEndpoint (tknopts u), ''tus/'', ID (Session u)]
      in case sign_result ev t of
           Inl err \<Rightarrow> Inl (Wrap ''error signing token with claims'' err)
         | Inr tkn \<Rightarrow> Inr (joinurl [DataGatewayEndpoint (tknopts u), tkn]))"

text \<open>\<^verbatim>\<open>Finalize\<close> (lines 326 to 348).\<close>

definition Finalize :: "env \<Rightarrow> world \<Rightarrow> upload \<Rightarrow> error option \<times> world \<times> upload" where
  "Finalize ev w u =
     (let r = (case Node u of
                 Some n \<Rightarrow> (Inr n, w, u)
               | None \<Rightarrow>
                   (let w1 = called (CallReadNode (SpaceRoot (Session u)) (NodeID (Session u))) w
                    in case readNode_result ev (SpaceRoot (Session u)) (NodeID (Session u)) of
                         Inl err \<Rightarrow> (Inl err, w1, u)
                       | Inr n \<Rightarrow> (Inr n, w1, u\<lparr>Node := Some n\<rparr>)))
      in case r of
           (Inl err, w1, u1) \<Rightarrow> (Some err, w1, u1)
         | (Inr n, w1, u1) \<Rightarrow>
             (let w2 = called (CallWriteBlob n (BinPath (Session u1))) w1
              in case writeBlob_fault ev n (BinPath (Session u1)) of
                   Some err \<Rightarrow> (Some (Wrap ''failed to upload file to blobstore'' err), w2, u1)
                 | None \<Rightarrow> (None, w2, u1)))"

subsection \<open>Finishing an upload\<close>

definition ContextSetLockID :: "ctx_values \<Rightarrow> string \<Rightarrow> ctx_values" where
  "ContextSetLockID c l = c\<lparr>ctx_LockID := Some l\<rparr>"

text \<open>The first step of \<^verbatim>\<open>FinishUpload\<close> (lines 189 to 191): the lock id of the
  session goes into the context of the upload.\<close>

definition set_lock_context :: "upload \<Rightarrow> upload" where
  "set_lock_context u =
     (if LockID (Session u) \<noteq> []
      then u\<lparr>Ctx := ContextSetLockID (Ctx u) (LockID (Session u))\<rparr>
      else u)"

text \<open>A \<^verbatim>\<open>nil\<close> file: every read fails with \<^verbatim>\<open>os.ErrInvalid\<close>.\<close>

definition nil_file :: reader where
  "nil_file = \<lparr>rdata = [], rerr = Some ErrInvalid\<rparr>"

text \<open>
  The digests of the staging file (lines 199 to 221 of \<^verbatim>\<open>FinishUpload\<close>): the three
  hashes see the bytes the copy read. A failure to open the file is logged and the
  copy then reads from a \<^verbatim>\<open>nil\<close> file.
\<close>

definition hash_staging :: "env \<Rightarrow> world \<Rightarrow> upload \<Rightarrow> (hash \<times> hash \<times> hash) \<times> world" where
  "hash_staging ev w u =
     (let (f, w1) = (case os_Open ev w (BinPath (Session u)) of
                       Inl err \<Rightarrow> (nil_file, logInfo ''error opening binPath'' w)
                     | Inr r \<Rightarrow> (r, w));
          (bs, err) = io_Copy None f;
          sha1h = hash_Write (sha1_New ev) bs;
          md5h = hash_Write (md5_New ev) bs;
          adler32h = hash_Write adler32_New bs;
          w2 = (case err of
                  Some e \<Rightarrow> logInfo ''error copying checksums'' w1
                | None \<Rightarrow> w1)
      in ((sha1h, md5h, adler32h), w2))"

text \<open>The \<^verbatim>\<open>switch\<close> of \<^verbatim>\<open>FinishUpload\<close> (lines 225 to 233).\<close>

definition selected_check :: "session \<Rightarrow> hash \<Rightarrow> hash \<Rightarrow> hash \<Rightarrow> error option" where
  "selected_check s sha1h md5h adler32h =
     (if ChecksumSHA1 s \<noteq> [] then checkHash (ChecksumSHA1 s) sha1h
      else if ChecksumMD5 s \<noteq> [] then checkHash (ChecksumMD5 s) md5h
      else if ChecksumADLER32 s \<noteq> [] then checkHash (ChecksumADLER32 s) adler32h
      else None)"

text \<open>The attributes of the digests (lines 240 to 244).\<close>

definition checksum_attrs :: "env \<Rightarrow> hash \<Rightarrow> hash \<Rightarrow> hash \<Rightarrow> attributes" where
  "checksum_attrs ev sha1h md5h adler32h =
     [ChecksumPrefix (names ev) @ ''sha1'' \<mapsto> hash_Sum sha1h,
      ChecksumPrefix (names ev) @ ''md5'' \<mapsto> hash_Sum md5h,
      ChecksumPrefix (names ev) @ ''adler32'' \<mapsto> hash_Sum adler32h]"

text \<open>Modelled from the spec: \<^verbatim>\<open>CreateNodeForUpload\<close> is missing from these sources;
  it asks the tree to materialise and commit a node carrying the given attributes at
  the target location of the session: the entry of the node, its link in the parent
  directory and its metadata.\<close>

definition CreateNodeForUpload ::
  "env \<Rightarrow> world \<Rightarrow> upload \<Rightarrow> attributes \<Rightarrow> (error + node) \<times> world" where
  "CreateNodeForUpload ev w u a =
     (let w1 = called (CallCreateNodeForUpload a) w
      in case createNode_result ev (Session u) of
           Inl err \<Rightarrow> (Inl err, w1)
         | Inr n \<Rightarrow>
             (Inr n,
              w1\<lparr>files := (files w1)
                     (node_InternalPath n \<mapsto> [],
                      filepath_Join (node_ParentPath n) (node_Name n) \<mapsto> []),
                 attrs := (attrs w1)
                     (node_InternalPath n \<mapsto>
                        (case attrs w1 (node_InternalPath n) of
                           None \<Rightarrow> a
                         | Some old \<Rightarrow> old ++ a))\<rparr>))"

text \<open>The event (lines 254 to 272 of \<^verbatim>\<open>FinishUpload\<close>); \<^verbatim>\<open>events.Publish\<close> is a call
  onto the event bus.\<close>

definition publish_BytesReceived :: "env \<Rightarrow> world \<Rightarrow> upload \<Rightarrow> error option \<times> world" where
  "publish_BytesReceived ev w u =
     (case pub u of
        None \<Rightarrow> (None, w)
      | Some p \<Rightarrow>
          (case URL ev u of
             Inl err \<Rightarrow> (Some err, w)
           | Inr s \<Rightarrow>
               (publish_fault ev (ID (Session u)),
                called (CallPublish (ID (Session u)) s) w)))"

text \<open>\<^verbatim>\<open>Tree.Propagate\<close>, the last call of \<^verbatim>\<open>FinishUpload\<close> (line 284).\<close>

definition tp_Propagate :: "env \<Rightarrow> world \<Rightarrow> node \<Rightarrow> int64 \<Rightarrow> error option \<times> world" where
  "tp_Propagate ev w n sizeDiff = (propagate_fault ev n sizeDiff, called (CallPropagate n sizeDiff) w)"

text \<open>The second half of \<^verbatim>\<open>FinishUpload\<close> (lines 239 to 284), which runs once the
  comparison of the digests has passed: commit, event, post-processing, propagation.\<close>

definition FinishUpload_commit ::
  "env \<Rightarrow> world \<Rightarrow> upload \<Rightarrow> hash \<Rightarrow> hash \<Rightarrow> hash \<Rightarrow> error option \<times> world \<times> upload" where
  "FinishUpload_commit ev w1 u sha1h md5h adler32h =
     (case CreateNodeForUpload ev w1 u (checksum_attrs ev sha1h md5h adler32h) of
        (Inl err, w2) \<Rightarrow>
          (let (w3, u3) = Cleanup ev w2 u True False in (Some err, w3, u3))
      | (Inr n, w2) \<Rightarrow>
          (let u2 = u\<lparr>Node := Some n\<rparr>
           in case publish_BytesReceived ev w2 u2 of
                (Some err, w3) \<Rightarrow> (Some err, w3, u2)
              | (None, w3) \<Rightarrow>
                  if \<not> async u2 then
                    (let (err, w4, u4) = Finalize ev w3 u2;
                         (w5, u5) = Cleanup ev w4 u4 (err \<noteq> None) False
                     in case err of
                          Some e \<Rightarrow> (Some e, logError ''failed to upload'' w5, u5)
                        | None \<Rightarrow>
                            (let (perr, w6) = tp_Propagate ev w5 n (SizeDiff (Session u5))
                             in (perr, w6, u5)))
                  else
                    (let (perr, w4) = tp_Propagate ev w3 n (SizeDiff (Session u2))
                     in (perr, w4, u2))))"

text \<open>\<^verbatim>\<open>FinishUpload\<close> (lines 185 to 285).\<close>

definition FinishUpload :: "env \<Rightarrow> world \<Rightarrow> upload \<Rightarrow> error option \<times> world \<times> upload" where
  "FinishUpload ev w u0 =
     (let u = set_lock_context u0;
          ((sha1h, md5h, adler32h), w1) = hash_staging ev w u
      in case selected_check (Session u) sha1h md5h adler32h of
           Some err \<Rightarrow>
             (let (w2, u2) = Cleanup ev w1 u True False in (Some err, w2, u2))
         | None \<Rightarrow> FinishUpload_commit ev w1 u sha1h md5h adler32h)"

subsection \<open>Notions the properties below are stated with\<close>

text \<open>The error is a \<^verbatim>\<open>errtypes.ChecksumMismatch\<close>.\<close>

fun is_ChecksumMismatch :: "error option \<Rightarrow> bool" where
  "is_ChecksumMismatch (Some (ChecksumMismatch m)) = True"
| "is_ChecksumMismatch e = False"

text \<open>The staged bytes of an upload: the content of its staging file, none when the
  file is missing.\<close>

definition staged :: "world \<Rightarrow> upload \<Rightarrow> byte list" where
  "staged w u = (case files w (BinPath (Session u)) of Some c \<Rightarrow> c | None \<Rightarrow> [])"

text \<open>The attribute names the filter of \<^verbatim>\<open>cleanup\<close> lets through.\<close>

definition allow_listed :: "env \<Rightarrow> string \<Rightarrow> bool" where
  "allow_listed ev k =
     (prefix (ChecksumPrefix (names ev)) k \<or> k = TypeAttr (names ev) \<or>
      k = BlobIDAttr (names ev) \<or> k = BlobsizeAttr (names ev) \<or> k = MTimeAttr (names ev))"

subsection \<open>Concrete surroundings and uploads\<close>

text \<open>Surroundings in which nothing fails. The two library digests are taken at their
  values for the empty input, which is what the staging files below hold where a
  digest is compared.\<close>

definition sha1_of_empty :: "byte list" where
  "sha1_of_empty = [218, 57, 163, 238, 94, 107, 75, 13, 50, 85,
                    191, 239, 149, 96, 24, 144, 175, 216, 7, 9]"

definition md5_of_empty :: "byte list" where
  "md5_of_empty = [212, 29, 140, 217, 143, 0, 178, 4,
                   233, 128, 9, 152, 236, 248, 66, 126]"

definition names0 :: prefixes where
  "names0 = \<lparr>ChecksumPrefix = ''user.ocis.cs.'', TypeAttr = ''user.ocis.type'',
             BlobIDAttr = ''user.ocis.blobid'', BlobsizeAttr = ''user.ocis.blobsize'',
             MTimeAttr = ''user.ocis.mtime''\<rparr>"

definition node0 :: node where
  "node0 = \<lparr>node_SpaceID = ''space'', node_ID = ''n1'', node_Name = ''a.txt'',
            node_InternalPath = ''nodes/n1'', node_ParentPath = ''nodes/root''\<rparr>"

definition ev0 :: env where
  "ev0 = \<lparr>open_fault = (\<lambda>w p. None), read_fault = (\<lambda>w p. None),
          write_fault = (\<lambda>w p. None), remove_fault = (\<lambda>p. None),
          removeAll_fault = (\<lambda>p. None), removeItem_fault = (\<lambda>p. None),
          copyMetadata_fault = (\<lambda>s t. None), purge_fault = (\<lambda>i. None),
          persist_fault = (\<lambda>i. None), createNode_result = (\<lambda>s. Inr node0),
          sign_result = (\<lambda>t. Inr ''tkn''), publish_fault = (\<lambda>i. None),
          readNode_result = (\<lambda>r i. Inr node0), writeBlob_fault = (\<lambda>n p. None),
          propagate_fault = (\<lambda>n d. None), unmark_fault = (\<lambda>n. None),
          sha1_Sum = (\<lambda>bs. sha1_of_empty), md5_Sum = (\<lambda>bs. md5_of_empty),
          names = names0\<rparr>"

definition session0 :: session where
  "session0 = \<lparr>ID = ''up1'', BinPath = ''uploads/up1'', Offset = 0, Size = 0,
               SizeIsDeferred = False, ChecksumSHA1 = [], ChecksumMD5 = [],
               ChecksumADLER32 = [], SpaceRoot = ''space'', NodeID = ''n1'',
               VersionsPath = [], LockID = [], Filename = ''a.txt'', SizeDiff = 0\<rparr>"

definition upload0 :: upload where
  "upload0 = \<lparr>Ctx = \<lparr>ctx_LockID = None, ctx_User = None\<rparr>, Session = session0,
              Node = None, pub = None, async = False,
              tknopts = \<lparr>DownloadEndpoint = ''https://dl'', DataGatewayEndpoint = ''https://gw'',
                         TransferSharedSecret = ''secret'', TransferExpires = 60\<rparr>\<rparr>"

text \<open>A disk with the empty staging file of \<open>upload0\<close> and its session record.\<close>

definition world0 :: world where
  "world0 = \<lparr>files = [''uploads/up1'' \<mapsto> []], attrs = Map.empty,
             sessions = [''up1'' \<mapsto> session0], logs = [], calls = []\<rparr>"

text \<open>An upload whose staging file holds the three bytes of \<^verbatim>\<open>abc\<close>, with their
  Adler-32 checksum \<^verbatim>\<open>024d0127\<close> declared in upper case.\<close>

definition upload_abc :: upload where
  "upload_abc = upload0\<lparr>Session := session0\<lparr>ChecksumADLER32 := ''024D0127''\<rparr>\<rparr>"

definition world_abc :: world where
  "world_abc = world0\<lparr>files := [''uploads/up1'' \<mapsto> [97, 98, 99]]\<rparr>"

text \<open>A request body that stops in the middle, and one that breaks with an error of
  the connection.\<close>

definition src_paused :: reader where
  "src_paused = \<lparr>rdata = [1, 2, 3], rerr = Some ErrUnexpectedEOF\<rparr>"

definition src_broken :: reader where
  "src_broken = \<lparr>rdata = [1, 2, 3], rerr = Some (IOError ''connection reset'')\<rparr>"

text \<open>An upload of the empty file that declares the right SHA-1 digest and a wrong MD5
  digest.\<close>

definition upload_two_sums :: upload where
  "upload_two_sums =
     upload0\<lparr>Session := session0\<lparr>ChecksumSHA1 := ''da39a3ee5e6b4b0d3255bfef95601890afd80709'',
                                   ChecksumMD5 := ''00000000000000000000000000000000''\<rparr>\<rparr>"

text \<open>Two partial uploads with the staged bytes 1, 2 and 3, on a disk that also holds
  the empty staging file of \<open>upload0\<close>.\<close>

definition upload_a :: upload where
  "upload_a = upload0\<lparr>Session := session0\<lparr>ID := ''partA'', BinPath := ''uploads/partA''\<rparr>\<rparr>"

definition upload_b :: upload where
  "upload_b = upload0\<lparr>Session := session0\<lparr>ID := ''partB'', BinPath := ''uploads/partB''\<rparr>\<rparr>"

definition world_parts :: world where
  "world_parts =
     world0\<lparr>files := [''uploads/up1'' \<mapsto> [], ''uploads/partA'' \<mapsto> [1, 2],
                       ''uploads/partB'' \<mapsto> [3]]\<rparr>"

text \<open>A partial upload whose staging file is not on that disk; surroundings in which
  reading the staging file of the first part breaks after one byte; and a disk on which
  both parts hold the same byte.\<close>

definition upload_gone :: upload where
  "upload_gone = upload0\<lparr>Session := session0\<lparr>ID := ''partC'', BinPath := ''uploads/partC''\<rparr>\<rparr>"

definition ev_bad_sector :: env where
  "ev_bad_sector =
     ev0\<lparr>read_fault := (\<lambda>w p. if p = ''uploads/partA''
                                then Some (1, IOError ''bad sector'') else None)\<rparr>"

definition world_twins :: world where
  "world_twins =
     world0\<lparr>files := [''uploads/up1'' \<mapsto> [], ''uploads/partA'' \<mapsto> [7],
                       ''uploads/partB'' \<mapsto> [7]]\<rparr>"

text \<open>Surroundings in which every removal, the metadata copy and the purge of the
  session record fail.\<close>

definition ev_faulty :: env where
  "ev_faulty =
     ev0\<lparr>remove_fault := (\<lambda>p. Some (IOError ''permission denied'')),
         removeAll_fault := (\<lambda>p. Some (IOError ''permission denied'')),
         removeItem_fault := (\<lambda>p. Some (IOError ''permission denied'')),
         copyMetadata_fault := (\<lambda>s t. Some (IOError ''permission denied'')),
         purge_fault := (\<lambda>i. Some (IOError ''permission denied''))\<rparr>"

text \<open>Surroundings in which only the removal of a directory tree fails.\<close>

definition ev_keep_tree :: env where
  "ev_keep_tree = ev0\<lparr>removeAll_fault := (\<lambda>p. Some (IOError ''permission denied''))\<rparr>"

text \<open>Surroundings in which only the copy of the metadata fails.\<close>

definition ev_no_copy :: env where
  "ev_no_copy = ev0\<lparr>copyMetadata_fault := (\<lambda>s t. Some (IOError ''permission denied''))\<rparr>"

text \<open>An upload that declares a wrong SHA-1 digest; an upload that holds its node; an
  upload that replaced a version of its node, with and without the node at hand.\<close>

definition upload_wrong_sum :: upload where
  "upload_wrong_sum = upload0\<lparr>Session := session0\<lparr>ChecksumSHA1 := ''00''\<rparr>\<rparr>"

definition upload_with_node :: upload where
  "upload_with_node = upload0\<lparr>Node := Some node0\<rparr>"

definition upload_resumed :: upload where
  "upload_resumed = upload0\<lparr>Session := session0\<lparr>VersionsPath := ''nodes/n1.REV.1''\<rparr>\<rparr>"

definition upload_versioned :: upload where
  "upload_versioned = upload_resumed\<lparr>Node := Some node0\<rparr>"

text \<open>A disk with the live node of \<open>node0\<close> after an overwrite and the snapshot of the
  version before it.\<close>

definition attrs_live :: attributes where
  "attrs_live = [''user.ocis.cs.sha1'' \<mapsto> [2], ''user.ocis.blobid'' \<mapsto> [2],
                 ''user.ocis.name'' \<mapsto> [7], ''user.ocis.status'' \<mapsto> [9]]"

definition attrs_snapshot :: attributes where
  "attrs_snapshot = [''user.ocis.cs.sha1'' \<mapsto> [1], ''user.ocis.blobid'' \<mapsto> [1],
                     ''user.ocis.mtime'' \<mapsto> [1], ''user.ocis.name'' \<mapsto> [1]]"

definition world_versioned :: world where
  "world_versioned =
     world0\<lparr>files := [''uploads/up1'' \<mapsto> [], ''nodes/n1'' \<mapsto> [], ''nodes/n1.REV.1'' \<mapsto> []],
            attrs := [''nodes/n1'' \<mapsto> attrs_live, ''nodes/n1.REV.1'' \<mapsto> attrs_snapshot]\<rparr>"

text \<open>A disk on which the staging file and the session record are gone already.\<close>

definition world_cleaned :: world where
  "world_cleaned = world0\<lparr>files := Map.empty, sessions := Map.empty\<rparr>"

text \<open>An upload with an event publisher; surroundings in which signing the token fails,
  in which the event bus fails, and in which no file can be opened.\<close>

definition upload_pub :: upload where
  "upload_pub = upload0\<lparr>pub := Some ''bus''\<rparr>"

definition ev_no_sign :: env where
  "ev_no_sign = ev0\<lparr>sign_result := (\<lambda>t. Inl (IOError ''key is invalid''))\<rparr>"

definition ev_no_bus :: env where
  "ev_no_bus = ev0\<lparr>publish_fault := (\<lambda>i. Some (IOError ''bus is down''))\<rparr>"


section \<open>Properties\<close>

subsection \<open>Cleanup: what each step changes\<close>

lemma logInfo_fields [simp]:
  "files (logInfo m w) = files w" "attrs (logInfo m w) = attrs w"
  "sessions (logInfo m w) = sessions w" "calls (logInfo m w) = calls w"
  "logs (logInfo m w) = logs w @ [LogInfo m]"
  by (simp_all add: logInfo_def)

lemma logError_fields [simp]:
  "files (logError m w) = files w" "attrs (logError m w) = attrs w"
  "sessions (logError m w) = sessions w" "calls (logError m w) = calls w"
  "logs (logError m w) = logs w @ [LogError m]"
  by (simp_all add: logError_def)

lemma called_fields [simp]:
  "files (called c w) = files w" "attrs (called c w) = attrs w"
  "sessions (called c w) = sessions w" "logs (called c w) = logs w"
  "calls (called c w) = calls w @ [c]"
  by (simp_all add: called_def)

lemma os_Remove_frame [simp]:
  "logs (snd (os_Remove ev p w)) = logs w" "calls (snd (os_Remove ev p w)) = calls w"
  "attrs (snd (os_Remove ev p w)) = attrs w" "sessions (snd (os_Remove ev p w)) = sessions w"
  by (simp_all add: os_Remove_def split: option.splits)

lemma os_RemoveAll_frame [simp]:
  "logs (snd (os_RemoveAll ev p w)) = logs w" "calls (snd (os_RemoveAll ev p w)) = calls w"
  "sessions (snd (os_RemoveAll ev p w)) = sessions w"
  by (simp_all add: os_RemoveAll_def split: option.splits)

lemma utils_RemoveItem_frame [simp]:
  "logs (snd (utils_RemoveItem ev p w)) = logs w"
  "calls (snd (utils_RemoveItem ev p w)) = calls w"
  "sessions (snd (utils_RemoveItem ev p w)) = sessions w"
  by (simp_all add: utils_RemoveItem_def split: option.splits)

lemma lookup_CopyMetadata_frame [simp]:
  "logs (snd (lookup_CopyMetadata ev s t f w)) = logs w"
  "calls (snd (lookup_CopyMetadata ev s t f w)) = calls w"
  "sessions (snd (lookup_CopyMetadata ev s t f w)) = sessions w"
  "files (snd (lookup_CopyMetadata ev s t f w)) = files w"
  by (simp_all add: lookup_CopyMetadata_def split: option.splits)

text \<open>What the staging step and the session step of cleanup leave.\<close>

lemma cleanup_bin_frame [simp]:
  "calls (cleanup_bin ev w u) = calls w" "attrs (cleanup_bin ev w u) = attrs w"
  "sessions (cleanup_bin ev w u) = sessions w"
  by (simp_all add: cleanup_bin_def os_Remove_def split: option.splits)

lemma cleanup_bin_files:
  "files (cleanup_bin ev w u) =
     (if remove_fault ev (BinPath (Session u)) = None
      then (files w)(BinPath (Session u) := None) else files w)"
  by (auto simp: cleanup_bin_def os_Remove_def fun_upd_idem split: option.splits)

lemma cleanup_bin_logs:
  "logs (cleanup_bin ev w u) =
     logs w @ (case remove_fault ev (BinPath (Session u)) of
                 Some e \<Rightarrow> if errors_Is e ErrNotExist then []
                           else [LogError ''removing upload failed'']
               | None \<Rightarrow> [])"
  by (simp add: cleanup_bin_def os_Remove_def split: option.splits)

lemma cleanup_info_frame [simp]:
  "calls (cleanup_info ev w u) = calls w" "attrs (cleanup_info ev w u) = attrs w"
  "files (cleanup_info ev w u) = files w"
  by (simp_all add: cleanup_info_def Session_Purge_def split: option.splits)

lemma cleanup_info_sessions:
  "sessions (cleanup_info ev w u) =
     (if purge_fault ev (ID (Session u)) = None
      then (sessions w)(ID (Session u) := None) else sessions w)"
  by (auto simp: cleanup_info_def Session_Purge_def fun_upd_idem split: option.splits)

lemma cleanup_info_logs:
  "logs (cleanup_info ev w u) =
     logs w @ (case purge_fault ev (ID (Session u)) of
                 Some e \<Rightarrow> if errors_Is e ErrNotExist then []
                           else [LogError ''removing upload info failed'']
               | None \<Rightarrow> [])"
  by (simp add: cleanup_info_def Session_Purge_def split: option.splits)

lemma cleanup_node_frame [simp]:
  "Session (snd (cleanup_node ev n w u)) = Session u"
  "sessions (fst (cleanup_node ev n w u)) = sessions w"
  "calls (fst (cleanup_node ev n w u)) = calls w"
  by (simp_all add: cleanup_node_def Let_def split_def split: option.splits)

lemma cleanup_node_logs:
  assumes "VersionsPath (Session u) = []"
  shows "removeItem_fault ev (node_InternalPath n) = Some e \<Longrightarrow>
           LogInfo ''removing node failed'' \<in> set (logs (fst (cleanup_node ev n w u)))"
    and "remove_fault ev (filepath_Join (node_ParentPath n) (node_Name n)) = Some e \<Longrightarrow>
           LogInfo ''removing node from parent failed''
             \<in> set (logs (fst (cleanup_node ev n w u)))"
  using assms
  by (auto simp: cleanup_node_def Let_def split_def utils_RemoveItem_def os_Remove_def
        split: option.splits)

lemma cleanup_node_logs_version:
  assumes "VersionsPath (Session u) \<noteq> []"
  shows "copyMetadata_fault ev (VersionsPath (Session u)) (node_InternalPath n) = Some e \<Longrightarrow>
           LogInfo ''renaming version node failed''
             \<in> set (logs (fst (cleanup_node ev n w u)))"
    and "removeAll_fault ev (VersionsPath (Session u)) = Some e \<Longrightarrow>
           LogInfo ''error removing version'' \<in> set (logs (fst (cleanup_node ev n w u)))"
  using assms
  by (auto simp: cleanup_node_def Let_def split_def lookup_CopyMetadata_def os_RemoveAll_def
        split: option.splits)

text \<open>Cleanup for an upload without a node, and with one.\<close>

lemma cleanup_None:
  "Node u = None \<Longrightarrow>
     cleanup ev cn cb ci w u =
       (let w2 = (if cb then cleanup_bin ev w u else w)
        in (if ci then cleanup_info ev w2 u else w2, u))"
  by (simp add: cleanup_def Let_def)

lemma cleanup_Some:
  "Node u = Some n \<Longrightarrow>
     cleanup ev True cb ci w u =
       (let w1 = fst (cleanup_node ev n w u); u1 = snd (cleanup_node ev n w u);
            w2 = (if cb then cleanup_bin ev w1 u1 else w1)
        in (if ci then cleanup_info ev w2 u1 else w2, u1))"
  by (simp add: cleanup_def Let_def split_def)

lemma cleanup_keep_node:
  "cleanup ev False cb ci w u =
       (let w2 = (if cb then cleanup_bin ev w u else w)
        in (if ci then cleanup_info ev w2 u else w2, u))"
  by (simp add: cleanup_def Let_def split: option.splits)

lemma BinPath_cleanup_node [simp]:
  "cleanup_bin ev w (snd (cleanup_node ev n w0 u)) = cleanup_bin ev w u"
  "cleanup_info ev w (snd (cleanup_node ev n w0 u)) = cleanup_info ev w u"
  by (simp_all add: cleanup_bin_def cleanup_info_def)

lemma cleanup_logs_node_step:
  assumes "Node u = Some n"
  shows "set (logs (fst (cleanup_node ev n w u)))
           \<subseteq> set (logs (fst (cleanup ev True cb ci w u)))"
  by (auto simp: cleanup_Some [OF assms] Let_def cleanup_bin_logs cleanup_info_logs)

lemma cleanup_logs_bin:
  assumes "remove_fault ev (BinPath (Session u)) = Some e" "\<not> errors_Is e ErrNotExist"
  shows "LogError ''removing upload failed'' \<in> set (logs (fst (cleanup ev cn True ci w u)))"
  by (cases "Node u"; cases cn)
     (use assms in \<open>simp_all add: cleanup_None cleanup_Some cleanup_keep_node Let_def cleanup_bin_logs
        cleanup_info_logs\<close>)

lemma cleanup_logs_info:
  assumes "purge_fault ev (ID (Session u)) = Some e" "\<not> errors_Is e ErrNotExist"
  shows "LogError ''removing upload info failed'' \<in> set (logs (fst (cleanup ev cn cb True w u)))"
  by (cases "Node u"; cases cn)
     (use assms in \<open>simp_all add: cleanup_None cleanup_Some cleanup_keep_node Let_def cleanup_bin_logs
        cleanup_info_logs\<close>)

lemma cleanup_purges:
  assumes "purge_fault ev (ID (Session u)) = None"
  shows "sessions (fst (cleanup ev cn cb True w u)) (ID (Session u)) = None"
  by (cases "Node u"; cases cn)
     (use assms in \<open>simp_all add: cleanup_None cleanup_Some cleanup_keep_node Let_def cleanup_info_sessions\<close>)

lemma cleanup_removes_staging:
  assumes "remove_fault ev (BinPath (Session u)) = None"
  shows "files (fst (cleanup ev cn True ci w u)) (BinPath (Session u)) = None"
  by (cases "Node u"; cases cn)
     (use assms in \<open>simp_all add: cleanup_None cleanup_Some cleanup_keep_node Let_def cleanup_bin_files\<close>)

lemma cleanup_nothing_left:
  assumes "Node u = None" "files w (BinPath (Session u)) = None"
      and "sessions w (ID (Session u)) = None"
      and "remove_fault ev (BinPath (Session u)) = None"
      and "purge_fault ev (ID (Session u)) = None"
  shows "cleanup ev cn cb ci w u = (w, u)"
  using assms
  by (simp add: cleanup_None cleanup_bin_def cleanup_info_def os_Remove_def Session_Purge_def)

subsection \<open>Writing a chunk\<close>

lemma os_OpenFile_append_Inr:
  "os_OpenFile_append ev w p = Inr c \<Longrightarrow> files w p = Some c"
  by (auto simp: os_OpenFile_append_def split: option.splits)

lemma append_file_Some:
  "files w p = Some c \<Longrightarrow> append_file p bs w = w\<lparr>files := (files w)(p \<mapsto> c @ bs)\<rparr>"
  by (simp add: append_file_def)

text \<open>
  C1. When the staging file was opened and the copy stops with \<^verbatim>\<open>io.ErrUnexpectedEOF\<close>
  after the bytes \<open>bs\<close> were appended, \<^verbatim>\<open>WriteChunk\<close> returns their count and no error,
  the offset of the session has advanced by that count, and nothing but the staging
  file has changed on the disk (no cleanup). When the copy stops with any other error,
  \<^verbatim>\<open>WriteChunk\<close> returns that error together with the count of the bytes written.
\<close>

theorem WriteChunk_pause_or_error:
  assumes opened: "os_OpenFile_append ev w (BinPath (Session u)) = Inr fh"
      and copied: "io_Copy (write_fault ev w (BinPath (Session u))) src = (bs, err)"
  shows "(err = Some ErrUnexpectedEOF \<longrightarrow>
            WriteChunk ev w u offset src =
              ((of_nat (length bs), None),
               w\<lparr>files := (files w)(BinPath (Session u) \<mapsto> fh @ bs)\<rparr>,
               u\<lparr>Session := (Session u)\<lparr>Offset := Offset (Session u) + of_nat (length bs)\<rparr>\<rparr>))
       \<and> (\<forall>e. err = Some e \<and> e \<noteq> ErrUnexpectedEOF \<longrightarrow>
            WriteChunk ev w u offset src =
              ((of_nat (length bs), Some e),
               w\<lparr>files := (files w)(BinPath (Session u) \<mapsto> fh @ bs)\<rparr>, u))"
proof -
  have f: "files w (BinPath (Session u)) = Some fh"
    using opened by (rule os_OpenFile_append_Inr)
  show ?thesis
    by (simp add: WriteChunk_def Let_def opened copied append_file_Some [OF f])
qed

lemma upload0_opens:
  "os_OpenFile_append ev0 world0 (BinPath (Session upload0)) = Inr []"
  by (simp add: os_OpenFile_append_def ev0_def world0_def upload0_def session0_def)

lemma src_paused_copy:
  "io_Copy (write_fault ev0 world0 (BinPath (Session upload0))) src_paused
     = ([1, 2, 3], Some ErrUnexpectedEOF)"
  by (simp add: io_Copy_def ev0_def src_paused_def)

theorem WriteChunk_pause_or_error_witness:
  "os_OpenFile_append ev0 world0 (BinPath (Session upload0)) = Inr [] \<and>
   io_Copy (write_fault ev0 world0 (BinPath (Session upload0))) src_paused
     = ([1, 2, 3], Some ErrUnexpectedEOF) \<and>
   WriteChunk ev0 world0 upload0 0 src_paused =
     ((3, None),
      world0\<lparr>files := (files world0)(BinPath (Session upload0) \<mapsto> [1, 2, 3])\<rparr>,
      upload0\<lparr>Session := (Session upload0)\<lparr>Offset := Offset (Session upload0) + 3\<rparr>\<rparr>)"
  using WriteChunk_pause_or_error [OF upload0_opens src_paused_copy, of 0]
    upload0_opens src_paused_copy
  by simp

text \<open>The three ways a call of \<^verbatim>\<open>WriteChunk\<close> on an existing staging file ends.\<close>

lemma WriteChunk_cases:
  assumes f: "files w (BinPath (Session u)) = Some c"
  shows "(\<exists>e. WriteChunk ev w u offset src = ((0, Some e), w, u)) \<or>
         (\<exists>bs. WriteChunk ev w u offset src =
                 ((of_nat (length bs), None),
                  w\<lparr>files := (files w)(BinPath (Session u) \<mapsto> c @ bs)\<rparr>,
                  u\<lparr>Session := (Session u)\<lparr>Offset := Offset (Session u) + of_nat (length bs)\<rparr>\<rparr>)) \<or>
         (\<exists>bs e. WriteChunk ev w u offset src =
                 ((of_nat (length bs), Some e),
                  w\<lparr>files := (files w)(BinPath (Session u) \<mapsto> c @ bs)\<rparr>, u))"
proof (cases "os_OpenFile_append ev w (BinPath (Session u))")
  case (Inl e)
  then show ?thesis by (simp add: WriteChunk_def)
next
  case (Inr fh)
  with f have fc: "fh = c" by (auto dest: os_OpenFile_append_Inr)
  obtain bs err where cp: "io_Copy (write_fault ev w (BinPath (Session u))) src = (bs, err)"
    by (cases "io_Copy (write_fault ev w (BinPath (Session u))) src")
  show ?thesis
    using Inr fc cp f
    by (cases err) (auto simp: WriteChunk_def Let_def append_file_Some)
qed

text \<open>
  C6, as the code has it. The offset is an \<^verbatim>\<open>int64\<close>; it equals the number of staged
  bytes when it is that number as an \<^verbatim>\<open>int64\<close>. If it does before a call of
  \<^verbatim>\<open>WriteChunk\<close>, then after the call the staging file is the old content followed by
  the bytes of this call, whose count is the count returned; when the call returns no
  error (it completed, or the stream paused) the offset again equals the number of
  staged bytes; when it returns an error the offset is what it was, so it lags behind
  the staged bytes by the count returned.
\<close>

theorem WriteChunk_offset_tracks_staged:
  assumes f: "files w (BinPath (Session u)) = Some c"
      and inv: "Offset (Session u) = of_nat (length c)"
      and run: "WriteChunk ev w u offset src = ((n, err), w', u')"
  shows "\<exists>bs. files w' (BinPath (Session u')) = Some (c @ bs) \<and> n = of_nat (length bs) \<and>
           (err = None \<longrightarrow> Offset (Session u') = of_nat (length (c @ bs))) \<and>
           (err \<noteq> None \<longrightarrow> Offset (Session u') = of_nat (length c))"
  using WriteChunk_cases [OF f, of ev offset src] run inv f
  by (elim disjE exE) (auto intro: exI [of _ "[]"])

lemma upload0_staged: "files world0 (BinPath (Session upload0)) = Some []"
  by (simp add: world0_def upload0_def session0_def)

lemma upload0_offset: "Offset (Session upload0) = of_nat (length ([] :: byte list))"
  by (simp add: upload0_def session0_def)

lemma upload0_paused_run:
  "WriteChunk ev0 world0 upload0 0 src_paused =
     ((3, None),
      world0\<lparr>files := (files world0)(BinPath (Session upload0) \<mapsto> [1, 2, 3])\<rparr>,
      upload0\<lparr>Session := (Session upload0)\<lparr>Offset := 3\<rparr>\<rparr>)"
  by (simp add: WriteChunk_def os_OpenFile_append_def io_Copy_def append_file_def Let_def
       ev0_def world0_def upload0_def session0_def src_paused_def)

theorem WriteChunk_offset_tracks_staged_witness:
  "files world0 (BinPath (Session upload0)) = Some [] \<and>
   Offset (Session upload0) = of_nat (length ([] :: byte list)) \<and>
   WriteChunk ev0 world0 upload0 0 src_paused =
     ((3, None),
      world0\<lparr>files := (files world0)(BinPath (Session upload0) \<mapsto> [1, 2, 3])\<rparr>,
      upload0\<lparr>Session := (Session upload0)\<lparr>Offset := 3\<rparr>\<rparr>) \<and>
   (\<exists>bs. files (world0\<lparr>files := (files world0)(BinPath (Session upload0) \<mapsto> [1, 2, 3])\<rparr>)
           (BinPath (Session (upload0\<lparr>Session := (Session upload0)\<lparr>Offset := 3\<rparr>\<rparr>)))
           = Some ([] @ bs) \<and>
         (3 :: int64) = of_nat (length bs) \<and>
         Offset (Session (upload0\<lparr>Session := (Session upload0)\<lparr>Offset := 3\<rparr>\<rparr>))
           = of_nat (length ([] @ bs)))"
  using WriteChunk_offset_tracks_staged [OF upload0_staged upload0_offset upload0_paused_run]
    upload0_staged upload0_offset upload0_paused_run
  by simp

text \<open>The claim C6 as it is written fails: a body that breaks after three bytes leaves
  three bytes in the staging file, the call returns the count 3 with the error, and
  the offset is still 0.\<close>

theorem WriteChunk_offset_counterexample:
  "fst (WriteChunk ev0 world0 upload0 0 src_broken) = (3, Some (IOError ''connection reset'')) \<and>
   files (fst (snd (WriteChunk ev0 world0 upload0 0 src_broken))) (BinPath (Session upload0))
     = Some [1, 2, 3] \<and>
   Offset (Session (snd (snd (WriteChunk ev0 world0 upload0 0 src_broken)))) = 0"
  by (simp add: WriteChunk_def os_OpenFile_append_def io_Copy_def append_file_def Let_def
       ev0_def world0_def upload0_def session0_def src_broken_def)

subsection \<open>Comparing digests\<close>

lemma hex_digit_hi: "unat (drop_bit 4 (v :: byte)) < 16"
proof -
  have "unat v < 256" using unsigned_less [of v, where 'a = nat] by simp
  then show ?thesis by (simp add: unat_drop_bit_eq drop_bit_eq_div unat_div)
qed

lemma hex_digit_lo: "unat ((v :: byte) AND 0x0f) < 16"
proof -
  have "unat (v AND 15) \<le> unat (15 :: byte)"
    by (rule word_and_le1 [THEN word_le_nat_alt [THEN iffD1]])
  then show ?thesis by simp
qed

lemma length_hextable: "length hextable = 16"
  by (simp add: hextable_def)

lemma hex_byte_lower: "set (hex_byte v) \<subseteq> set hextable"
  using hex_digit_hi [of v] hex_digit_lo [of v]
  by (simp add: hex_byte_def length_hextable)

lemma hex_EncodeToString_lower: "set (hex_EncodeToString bs) \<subseteq> set hextable"
  using hex_byte_lower by (auto simp: hex_EncodeToString_def)

text \<open>
  C3, as the code has it. \<^verbatim>\<open>checkHash\<close> compares the expected value with the
  hexadecimal encoding of the digest by equality of strings: the expected value passes
  exactly when it is that encoding, every other value is a checksum mismatch, the
  encoding has lower-case digits only, and so an expected value with an upper-case
  digit never passes.
\<close>

theorem checkHash_exact:
  "(checkHash expected h = None \<longleftrightarrow> expected = hex_EncodeToString (hash_Sum h)) \<and>
   (checkHash expected h \<noteq> None \<longrightarrow> is_ChecksumMismatch (checkHash expected h)) \<and>
   set (hex_EncodeToString (hash_Sum h)) \<subseteq> set ''0123456789abcdef'' \<and>
   (set expected \<inter> set ''ABCDEF'' \<noteq> {} \<longrightarrow> checkHash expected h \<noteq> None)"
proof -
  have low: "set (hex_EncodeToString (hash_Sum h)) \<subseteq> set ''0123456789abcdef''"
    using hex_EncodeToString_lower [of "hash_Sum h"] by (simp add: hextable_def)
  have "set ''0123456789abcdef'' \<inter> set ''ABCDEF'' = {}" by simp
  with low have up: "set (hex_EncodeToString (hash_Sum h)) \<inter> set ''ABCDEF'' = {}" by blast
  show ?thesis
    using low up by (auto simp: checkHash_def Let_def)
qed

theorem checkHash_exact_witness:
  "set ''024D0127'' \<inter> set ''ABCDEF'' \<noteq> {} \<and>
   checkHash ''024D0127'' (hash_Write adler32_New [97, 98, 99]) \<noteq> None \<and>
   is_ChecksumMismatch (checkHash ''024D0127'' (hash_Write adler32_New [97, 98, 99]))"
proof -
  let ?h = "hash_Write adler32_New [97, 98, 99]"
  have upper: "set ''024D0127'' \<inter> set ''ABCDEF'' \<noteq> {}" by simp
  have fails: "checkHash ''024D0127'' ?h \<noteq> None"
    using checkHash_exact [of "''024D0127''" ?h] upper by (elim conjE) (rule mp)
  have "is_ChecksumMismatch (checkHash ''024D0127'' ?h)"
    using checkHash_exact [of "''024D0127''" ?h] fails by (elim conjE) (rule mp)
  with upper fails show ?thesis by (intro conjI)
qed

text \<open>The claim C3 as it is written fails: the Adler-32 checksum of \<^verbatim>\<open>abc\<close> encodes
  as \<^verbatim>\<open>024d0127\<close>, and the expected value \<^verbatim>\<open>024D0127\<close>, which differs from it in
  the case of one digit only, is a checksum mismatch, in \<^verbatim>\<open>checkHash\<close> and so in
  \<^verbatim>\<open>FinishUpload\<close>.\<close>

theorem checkHash_case_counterexample:
  "hex_EncodeToString (hash_Sum (hash_Write adler32_New [97, 98, 99])) = ''024d0127'' \<and>
   checkHash ''024D0127'' (hash_Write adler32_New [97, 98, 99]) =
     Some (ChecksumMismatch ''invalid checksum: expected 024D0127 got 3032346430313237'') \<and>
   fst (FinishUpload ev0 world_abc upload_abc) =
     Some (ChecksumMismatch ''invalid checksum: expected 024D0127 got 3032346430313237'')"
  by (simp add: FinishUpload_def set_lock_context_def hash_staging_def os_Open_def io_Copy_def
        selected_check_def checkHash_def hash_Sum_def hash_Write_def adler32_New_def
        sha1_New_def md5_New_def adler32_Sum_def hex_EncodeToString_def hex_byte_def
        hextable_def fmt_x_def Cleanup_def cleanup_def cleanup_bin_def cleanup_info_def
        os_Remove_def Session_Purge_def
        ev0_def world_abc_def world0_def upload_abc_def upload0_def session0_def Let_def)

lemma hash_staging_set_lock_context:
  "hash_staging ev w (set_lock_context u) = hash_staging ev w u"
  by (simp add: hash_staging_def set_lock_context_def)

lemma Session_set_lock_context: "Session (set_lock_context u) = Session u"
  by (simp add: set_lock_context_def)

lemma FinishUpload_verified:
  assumes "hash_staging ev w u = ((sha1h, md5h, adler32h), w1)"
      and "selected_check (Session u) sha1h md5h adler32h = None"
  shows "FinishUpload ev w u = FinishUpload_commit ev w1 (set_lock_context u) sha1h md5h adler32h"
  using assms
  by (simp add: FinishUpload_def hash_staging_set_lock_context Session_set_lock_context)

lemma FinishUpload_rejects:
  assumes "hash_staging ev w u = ((sha1h, md5h, adler32h), w1)"
      and "selected_check (Session u) sha1h md5h adler32h = Some e"
  shows "FinishUpload ev w u =
           (Some e, Cleanup ev w1 (set_lock_context u) True False)"
  using assms
  by (simp add: FinishUpload_def hash_staging_set_lock_context Session_set_lock_context
        split: prod.splits)

text \<open>
  C2. With the three hashes of the staging file at hand, the comparison
  \<^verbatim>\<open>FinishUpload\<close> makes is the one of the first non-empty expectation in the order
  SHA1, MD5, ADLER32 and no other, none when all three are empty; \<^verbatim>\<open>FinishUpload\<close>
  fails with the error of that comparison and goes on to the commit when there is
  none. In particular a SHA1 expectation that is set and matches takes the upload to
  the commit whatever the MD5 expectation is.
\<close>

theorem FinishUpload_checks_first_declared:
  assumes hs: "hash_staging ev w u = ((sha1h, md5h, adler32h), w1)"
  shows "(ChecksumSHA1 (Session u) \<noteq> [] \<longrightarrow>
            selected_check (Session u) sha1h md5h adler32h
              = checkHash (ChecksumSHA1 (Session u)) sha1h) \<and>
         (ChecksumSHA1 (Session u) = [] \<and> ChecksumMD5 (Session u) \<noteq> [] \<longrightarrow>
            selected_check (Session u) sha1h md5h adler32h
              = checkHash (ChecksumMD5 (Session u)) md5h) \<and>
         (ChecksumSHA1 (Session u) = [] \<and> ChecksumMD5 (Session u) = [] \<and>
          ChecksumADLER32 (Session u) \<noteq> [] \<longrightarrow>
            selected_check (Session u) sha1h md5h adler32h
              = checkHash (ChecksumADLER32 (Session u)) adler32h) \<and>
         (ChecksumSHA1 (Session u) = [] \<and> ChecksumMD5 (Session u) = [] \<and>
          ChecksumADLER32 (Session u) = [] \<longrightarrow>
            selected_check (Session u) sha1h md5h adler32h = None) \<and>
         (\<forall>e. selected_check (Session u) sha1h md5h adler32h = Some e \<longrightarrow>
            fst (FinishUpload ev w u) = Some e) \<and>
         (selected_check (Session u) sha1h md5h adler32h = None \<longrightarrow>
            FinishUpload ev w u
              = FinishUpload_commit ev w1 (set_lock_context u) sha1h md5h adler32h) \<and>
         (ChecksumSHA1 (Session u) \<noteq> [] \<and>
          ChecksumSHA1 (Session u) = hex_EncodeToString (hash_Sum sha1h) \<longrightarrow>
            FinishUpload ev w u
              = FinishUpload_commit ev w1 (set_lock_context u) sha1h md5h adler32h)"
proof -
  let ?sel = "selected_check (Session u) sha1h md5h adler32h"
  let ?commit = "FinishUpload_commit ev w1 (set_lock_context u) sha1h md5h adler32h"
  have c1: "ChecksumSHA1 (Session u) \<noteq> [] \<longrightarrow>
      ?sel = checkHash (ChecksumSHA1 (Session u)) sha1h"
    by (simp add: selected_check_def)
  have c2: "ChecksumSHA1 (Session u) = [] \<and> ChecksumMD5 (Session u) \<noteq> [] \<longrightarrow>
      ?sel = checkHash (ChecksumMD5 (Session u)) md5h"
    by (simp add: selected_check_def)
  have c3: "ChecksumSHA1 (Session u) = [] \<and> ChecksumMD5 (Session u) = [] \<and>
      ChecksumADLER32 (Session u) \<noteq> [] \<longrightarrow>
      ?sel = checkHash (ChecksumADLER32 (Session u)) adler32h"
    by (simp add: selected_check_def)
  have c4: "ChecksumSHA1 (Session u) = [] \<and> ChecksumMD5 (Session u) = [] \<and>
      ChecksumADLER32 (Session u) = [] \<longrightarrow> ?sel = None"
    by (simp add: selected_check_def)
  have c5: "\<forall>e. ?sel = Some e \<longrightarrow> fst (FinishUpload ev w u) = Some e"
    by (simp add: FinishUpload_rejects [OF hs])
  have c6: "?sel = None \<longrightarrow> FinishUpload ev w u = ?commit"
    using FinishUpload_verified [OF hs] by (rule impI)
  have c7: "ChecksumSHA1 (Session u) \<noteq> [] \<and>
      ChecksumSHA1 (Session u) = hex_EncodeToString (hash_Sum sha1h) \<longrightarrow>
      FinishUpload ev w u = ?commit"
  proof (intro impI, elim conjE)
    assume "ChecksumSHA1 (Session u) \<noteq> []"
       and "ChecksumSHA1 (Session u) = hex_EncodeToString (hash_Sum sha1h)"
    then have "?sel = None"
      by (simp add: selected_check_def checkHash_def)
    then show "FinishUpload ev w u = ?commit"
      by (rule FinishUpload_verified [OF hs])
  qed
  show ?thesis
    by (intro conjI) (rule c1, rule c2, rule c3, rule c4, rule c5, rule c6, rule c7)
qed

lemma two_sums_hashes:
  "hash_staging ev0 world0 upload_two_sums =
     ((hash_Write (sha1_New ev0) [], hash_Write (md5_New ev0) [], hash_Write adler32_New []),
      world0)"
  by (simp add: hash_staging_def os_Open_def io_Copy_def ev0_def world0_def
        upload_two_sums_def upload0_def session0_def)

lemma hex_sha1_of_empty:
  "hex_EncodeToString sha1_of_empty = ''da39a3ee5e6b4b0d3255bfef95601890afd80709''"
  by (simp add: hex_EncodeToString_def hex_byte_def hextable_def sha1_of_empty_def)

lemma hex_md5_of_empty:
  "hex_EncodeToString md5_of_empty = ''d41d8cd98f00b204e9800998ecf8427e''"
  by (simp add: hex_EncodeToString_def hex_byte_def hextable_def md5_of_empty_def)

lemma two_sums_succeeds: "fst (FinishUpload ev0 world0 upload_two_sums) = None"
  by (simp add: FinishUpload_def FinishUpload_commit_def set_lock_context_def hash_staging_def
        os_Open_def io_Copy_def selected_check_def checkHash_def hash_Sum_def hash_Write_def
        sha1_New_def md5_New_def adler32_New_def hex_sha1_of_empty
        CreateNodeForUpload_def publish_BytesReceived_def Finalize_def Cleanup_def
        cleanup_keep_node tp_Propagate_def split_def
        ev0_def world0_def upload_two_sums_def upload0_def session0_def Let_def)

theorem FinishUpload_checks_first_declared_witness:
  "hash_staging ev0 world0 upload_two_sums =
     ((hash_Write (sha1_New ev0) [], hash_Write (md5_New ev0) [], hash_Write adler32_New []),
      world0) \<and>
   ChecksumSHA1 (Session upload_two_sums) \<noteq> [] \<and>
   ChecksumSHA1 (Session upload_two_sums)
     = hex_EncodeToString (hash_Sum (hash_Write (sha1_New ev0) [])) \<and>
   is_ChecksumMismatch
     (checkHash (ChecksumMD5 (Session upload_two_sums)) (hash_Write (md5_New ev0) [])) \<and>
   FinishUpload ev0 world0 upload_two_sums =
     FinishUpload_commit ev0 world0 (set_lock_context upload_two_sums)
       (hash_Write (sha1_New ev0) []) (hash_Write (md5_New ev0) []) (hash_Write adler32_New []) \<and>
   fst (FinishUpload ev0 world0 upload_two_sums) = None"
proof -
  have "hash_staging ev0 world0 upload_two_sums =
     ((hash_Write (sha1_New ev0) [], hash_Write (md5_New ev0) [], hash_Write adler32_New []),
      world0) \<and>
   ChecksumSHA1 (Session upload_two_sums) \<noteq> [] \<and>
   ChecksumSHA1 (Session upload_two_sums)
     = hex_EncodeToString (hash_Sum (hash_Write (sha1_New ev0) [])) \<and>
   is_ChecksumMismatch
     (checkHash (ChecksumMD5 (Session upload_two_sums)) (hash_Write (md5_New ev0) [])) \<and>
   FinishUpload ev0 world0 upload_two_sums =
     FinishUpload_commit ev0 world0 (set_lock_context upload_two_sums)
       (hash_Write (sha1_New ev0) []) (hash_Write (md5_New ev0) []) (hash_Write adler32_New [])"
    using FinishUpload_checks_first_declared [OF two_sums_hashes] two_sums_hashes
      hex_sha1_of_empty hex_md5_of_empty
    by (simp add: checkHash_def hash_Sum_def hash_Write_def sha1_New_def md5_New_def ev0_def
          upload_two_sums_def upload0_def session0_def)
  then show ?thesis
    using two_sums_succeeds by (elim conjE) (intro conjI; assumption)
qed

subsection \<open>Concatenation\<close>

lemma io_Copy_prefix:
  assumes "io_Copy wfault src = (bs, err)"
  shows "prefix bs (rdata src)" and "err = None \<Longrightarrow> bs = rdata src \<and> rerr src = None"
  using assms
  by (auto simp: io_Copy_def take_is_prefix split: option.splits prod.splits if_splits)

lemma os_Open_Inr:
  assumes "os_Open ev w p = Inr r"
  shows "\<exists>c. files w p = Some c \<and> prefix (rdata r) c \<and> (rerr r = None \<longrightarrow> rdata r = c)"
  using assms
  by (auto simp: os_Open_def take_is_prefix split: option.splits prod.splits)

lemma staged_append_file_other:
  "BinPath (Session p) \<noteq> dst \<Longrightarrow> staged (append_file dst bs w) p = staged w p"
  by (simp add: staged_def append_file_def split: option.splits)

lemma io_Copy_file_other:
  "p \<noteq> dst \<Longrightarrow> io_Copy_file ev w dst p src = Some (io_Copy (write_fault ev w dst) src)"
  by (simp add: io_Copy_file_def split: option.splits)

text \<open>One turn of the loop, for a part staged in another file than the destination.\<close>

lemma ConcatUploads_loop_step:
  assumes "BinPath (Session p) \<noteq> dst"
  shows "ConcatUploads_loop ev dst w (p # rest) =
     (case os_Open ev w (BinPath (Session p)) of
        Inl err \<Rightarrow> Some (Some err, w)
      | Inr src \<Rightarrow>
          (case io_Copy (write_fault ev w dst) src of
             (bs, Some e) \<Rightarrow> Some (Some e, append_file dst bs w)
           | (bs, None) \<Rightarrow> ConcatUploads_loop ev dst (append_file dst bs w) rest))"
  using assms
  by (simp add: io_Copy_file_other Let_def split: sum.splits prod.splits option.splits)

lemma ConcatUploads_loop_returns:
  assumes "\<forall>p \<in> set parts. BinPath (Session p) \<noteq> dst"
  shows "\<exists>r. ConcatUploads_loop ev dst w parts = Some r"
  using assms
proof (induction parts arbitrary: w)
  case Nil
  show ?case by simp
next
  case (Cons p rest)
  then have p: "BinPath (Session p) \<noteq> dst"
    and rest: "\<And>w. \<exists>r. ConcatUploads_loop ev dst w rest = Some r"
    by simp_all
  show ?case
    using rest
    by (simp add: ConcatUploads_loop_step [OF p] del: ConcatUploads_loop.simps(2)
          split: sum.splits prod.splits option.splits)
qed

lemma ConcatUploads_loop_appends:
  assumes "files w dst = Some c"
      and "\<forall>p \<in> set parts. BinPath (Session p) \<noteq> dst"
      and "ConcatUploads_loop ev dst w parts = Some (err, w')"
  shows "\<exists>pre. prefix pre (concat (map (staged w) parts)) \<and>
           w' = w\<lparr>files := (files w)(dst \<mapsto> c @ pre)\<rparr> \<and>
           (err = None \<longrightarrow> pre = concat (map (staged w) parts))"
  using assms
proof (induction parts arbitrary: w c)
  case Nil
  then have "prefix [] (concat (map (staged w) [])) \<and>
      w' = w\<lparr>files := (files w)(dst \<mapsto> c @ [])\<rparr> \<and>
      (err = None \<longrightarrow> [] = concat (map (staged w) []))"
    by (simp add: map_upd_triv)
  then show ?case by (rule exI)
next
  case (Cons p rest)
  from Cons.prems(2) have pd: "BinPath (Session p) \<noteq> dst" by simp
  note step = ConcatUploads_loop_step [OF pd, of ev w rest]
  show ?case
  proof (cases "os_Open ev w (BinPath (Session p))")
    case (Inl e)
    with Cons.prems(3) step have "prefix [] (concat (map (staged w) (p # rest))) \<and>
        w' = w\<lparr>files := (files w)(dst \<mapsto> c @ [])\<rparr> \<and>
        (err = None \<longrightarrow> [] = concat (map (staged w) (p # rest)))"
      using Cons.prems(1) by (auto simp: map_upd_triv)
    then show ?thesis by (rule exI)
  next
    case (Inr src)
    then obtain cp where cp: "files w (BinPath (Session p)) = Some cp"
        "prefix (rdata src) cp" "rerr src = None \<longrightarrow> rdata src = cp"
      using os_Open_Inr by blast
    then have st: "staged w p = cp" by (simp add: staged_def)
    obtain bs e1 where cpy: "io_Copy (write_fault ev w dst) src = (bs, e1)"
      by (cases "io_Copy (write_fault ev w dst) src")
    let ?w1 = "append_file dst bs w"
    have w1: "?w1 = w\<lparr>files := (files w)(dst \<mapsto> c @ bs)\<rparr>"
      using Cons.prems(1) by (simp add: append_file_def)
    have pre_bs: "prefix bs cp"
      using io_Copy_prefix(1) [OF cpy] cp(2) by (rule prefix_order.trans)
    show ?thesis
    proof (cases e1)
      case (Some e)
      with Cons.prems(3) step Inr cpy have "w' = ?w1" and "err = Some e" by simp_all
      with w1 pre_bs st have "prefix bs (concat (map (staged w) (p # rest))) \<and>
          w' = w\<lparr>files := (files w)(dst \<mapsto> c @ bs)\<rparr> \<and>
          (err = None \<longrightarrow> bs = concat (map (staged w) (p # rest)))"
        by (auto simp: prefix_def)
      then show ?thesis by (rule exI)
    next
      case None
      then have full: "bs = cp"
        using io_Copy_prefix(2) [OF cpy] cp(3) by simp
      from None Cons.prems(3) step Inr cpy
      have run: "ConcatUploads_loop ev dst ?w1 rest = Some (err, w')" by simp
      have f1: "files ?w1 dst = Some (c @ bs)" by (simp add: w1)
      have others: "\<forall>q \<in> set rest. BinPath (Session q) \<noteq> dst"
        using Cons.prems(2) by simp
      from Cons.IH [OF f1 others run]
      obtain pre where pre: "prefix pre (concat (map (staged ?w1) rest))"
          "w' = ?w1\<lparr>files := (files ?w1)(dst \<mapsto> (c @ bs) @ pre)\<rparr>"
          "err = None \<longrightarrow> pre = concat (map (staged ?w1) rest)"
        by blast
      have same: "map (staged ?w1) rest = map (staged w) rest"
        using others by (intro map_cong refl) (simp add: staged_append_file_other)
      have pre': "prefix pre (concat (map (staged w) rest))"
          "err = None \<longrightarrow> pre = concat (map (staged w) rest)"
        using pre(1,3) by (simp_all only: same)
      have "w' = w\<lparr>files := (files w)(dst \<mapsto> c @ (bs @ pre))\<rparr>"
        using pre(2) by (simp add: w1)
      with pre' full st
      have "prefix (bs @ pre) (concat (map (staged w) (p # rest))) \<and>
          w' = w\<lparr>files := (files w)(dst \<mapsto> c @ (bs @ pre))\<rparr> \<and>
          (err = None \<longrightarrow> bs @ pre = concat (map (staged w) (p # rest)))"
        by simp
      then show ?thesis by (rule exI)
    qed
  qed
qed

text \<open>The loop over the parts that follow those copied without error.\<close>

lemma ConcatUploads_loop_append:
  assumes "ConcatUploads_loop ev dst w before = Some (None, w1)"
  shows "ConcatUploads_loop ev dst w (before @ rest) = ConcatUploads_loop ev dst w1 rest"
  using assms
proof (induction before arbitrary: w)
  case Nil
  then show ?case by simp
next
  case (Cons p ps)
  from Cons.prems show ?case
    by (auto simp: Let_def Cons.IH split: sum.splits option.splits prod.splits)
qed

lemma ConcatUploads_loop_succeeds:
  assumes "\<forall>w p. open_fault ev w p = None" "\<forall>w p. read_fault ev w p = None"
      and "\<forall>w p. write_fault ev w p = None"
      and "\<forall>p \<in> set parts. BinPath (Session p) \<noteq> dst"
      and "\<forall>p \<in> set parts. files w (BinPath (Session p)) \<noteq> None"
  shows "\<exists>w'. ConcatUploads_loop ev dst w parts = Some (None, w')"
  using assms(4,5)
proof (induction parts arbitrary: w)
  case Nil
  show ?case by simp
next
  case (Cons p rest)
  then obtain cp where cp: "files w (BinPath (Session p)) = Some cp" by auto
  from Cons.prems(1) have pd: "BinPath (Session p) \<noteq> dst" by simp
  have others: "\<forall>q \<in> set rest. BinPath (Session q) \<noteq> dst"
    using Cons.prems(1) by simp
  have still: "\<forall>q \<in> set rest. files (append_file dst cp w) (BinPath (Session q)) \<noteq> None"
    using Cons.prems(2) by (auto simp: append_file_def split: option.splits)
  show ?case
    using assms(1-3) cp Cons.IH [OF others still]
    by (simp add: ConcatUploads_loop_step [OF pd] os_Open_def io_Copy_def
          del: ConcatUploads_loop.simps(2))
qed

text \<open>\<^verbatim>\<open>ConcatUploads\<close> once the staging file of the destination is open.\<close>

lemma ConcatUploads_opened:
  assumes "ConcatUploads ev w u parts = Some (None, w')"
  shows "ConcatUploads_loop ev (BinPath (Session u)) w parts = Some (None, w')"
    and "\<exists>c. os_OpenFile_append ev w (BinPath (Session u)) = Inr c \<and>
             files w (BinPath (Session u)) = Some c"
  using assms
  by (auto simp: ConcatUploads_def os_OpenFile_append_def split: sum.splits option.splits)

lemma ConcatUploads_after:
  assumes apart: "\<forall>p \<in> set parts. BinPath (Session p) \<noteq> BinPath (Session u)"
      and run: "ConcatUploads ev w u parts = Some (None, w')"
  shows "w' = w\<lparr>files := (files w)(BinPath (Session u) \<mapsto>
                  staged w u @ concat (map (staged w) parts))\<rparr>"
    and "files w (BinPath (Session u)) = Some (staged w u)"
proof -
  from ConcatUploads_opened [OF run]
  obtain c where loop: "ConcatUploads_loop ev (BinPath (Session u)) w parts = Some (None, w')"
    and f: "files w (BinPath (Session u)) = Some c"
    by blast
  from f show "files w (BinPath (Session u)) = Some (staged w u)"
    by (simp add: staged_def)
  from ConcatUploads_loop_appends [OF f apart loop] f
  show "w' = w\<lparr>files := (files w)(BinPath (Session u) \<mapsto>
                  staged w u @ concat (map (staged w) parts))\<rparr>"
    by (auto simp: staged_def)
qed

text \<open>
  C4, as the code has it. The parts are staged in other files than the destination.
  Then \<^verbatim>\<open>ConcatUploads\<close> returns. If the staging file of the destination cannot be
  opened, it returns that error and changes nothing. Whatever it returns, the
  destination holds its old content followed by a prefix of the staged contents of the
  parts, concatenated in the order given, and nothing else has changed; when it
  returns no error, that prefix is the whole concatenation. It returns no error when
  all files exist and no operation on them fails. When the parts before a part were
  copied without error and that part cannot be opened, \<^verbatim>\<open>ConcatUploads\<close> returns the
  error of the open and leaves the destination with its old content and the contents
  of the parts before; when the copy of that part fails after some of its bytes, it
  returns the error of the copy and those bytes stay appended as well. For two parts,
  the one order leaves the content of the first followed by that of the second and
  the other order the reverse: the results differ exactly when the two contents do
  not commute.
\<close>

theorem ConcatUploads_in_order:
  assumes apart: "\<forall>p \<in> set parts. BinPath (Session p) \<noteq> BinPath (Session u)"
  shows "(\<exists>r. ConcatUploads ev w u parts = Some r) \<and>
         (\<forall>e. os_OpenFile_append ev w (BinPath (Session u)) = Inl e \<longrightarrow>
            ConcatUploads ev w u parts = Some (Some e, w)) \<and>
         (\<forall>c err w'. os_OpenFile_append ev w (BinPath (Session u)) = Inr c \<and>
            ConcatUploads ev w u parts = Some (err, w') \<longrightarrow>
            (\<exists>pre. prefix pre (concat (map (staged w) parts)) \<and>
               w' = w\<lparr>files := (files w)(BinPath (Session u) \<mapsto> c @ pre)\<rparr> \<and>
               (err = None \<longrightarrow> pre = concat (map (staged w) parts)))) \<and>
         ((\<forall>w p. open_fault ev w p = None) \<and> (\<forall>w p. read_fault ev w p = None) \<and>
          (\<forall>w p. write_fault ev w p = None) \<and> files w (BinPath (Session u)) \<noteq> None \<and>
          (\<forall>p \<in> set parts. files w (BinPath (Session p)) \<noteq> None) \<longrightarrow>
            (\<exists>w'. ConcatUploads ev w u parts = Some (None, w'))) \<and>
         (\<forall>before p rest w1 e. parts = before @ p # rest \<and>
            ConcatUploads ev w u before = Some (None, w1) \<and>
            os_Open ev w1 (BinPath (Session p)) = Inl e \<longrightarrow>
            ConcatUploads ev w u parts = Some (Some e, w1) \<and>
            w1 = w\<lparr>files := (files w)(BinPath (Session u) \<mapsto>
                      staged w u @ concat (map (staged w) before))\<rparr>) \<and>
         (\<forall>before p rest w1 src bs e. parts = before @ p # rest \<and>
            ConcatUploads ev w u before = Some (None, w1) \<and>
            os_Open ev w1 (BinPath (Session p)) = Inr src \<and>
            io_Copy (write_fault ev w1 (BinPath (Session u))) src = (bs, Some e) \<longrightarrow>
            ConcatUploads ev w u parts =
              Some (Some e, w\<lparr>files := (files w)(BinPath (Session u) \<mapsto>
                      staged w u @ concat (map (staged w) before) @ bs)\<rparr>) \<and>
            prefix bs (staged w p)) \<and>
         (\<forall>a b wab wba. parts = [a, b] \<and> ConcatUploads ev w u [a, b] = Some (None, wab) \<and>
            ConcatUploads ev w u [b, a] = Some (None, wba) \<longrightarrow>
            staged wab u = staged w u @ staged w a @ staged w b \<and>
            staged wba u = staged w u @ staged w b @ staged w a \<and>
            (wab = wba \<longleftrightarrow> staged w a @ staged w b = staged w b @ staged w a))"
proof -
  let ?dst = "BinPath (Session u)"
  have c1: "\<exists>r. ConcatUploads ev w u parts = Some r"
    using ConcatUploads_loop_returns [OF apart, of ev w]
    by (simp add: ConcatUploads_def split: sum.splits)
  have c2: "\<forall>e. os_OpenFile_append ev w ?dst = Inl e \<longrightarrow>
      ConcatUploads ev w u parts = Some (Some e, w)"
    by (simp add: ConcatUploads_def)
  have c3: "\<forall>c err w'. os_OpenFile_append ev w ?dst = Inr c \<and>
            ConcatUploads ev w u parts = Some (err, w') \<longrightarrow>
            (\<exists>pre. prefix pre (concat (map (staged w) parts)) \<and>
               w' = w\<lparr>files := (files w)(?dst \<mapsto> c @ pre)\<rparr> \<and>
               (err = None \<longrightarrow> pre = concat (map (staged w) parts)))"
  proof (intro allI impI, elim conjE)
    fix c err w'
    assume op: "os_OpenFile_append ev w ?dst = Inr c"
       and run: "ConcatUploads ev w u parts = Some (err, w')"
    from op have f: "files w ?dst = Some c"
      by (auto simp: os_OpenFile_append_def split: option.splits)
    from op run have "ConcatUploads_loop ev ?dst w parts = Some (err, w')"
      by (simp add: ConcatUploads_def)
    from ConcatUploads_loop_appends [OF f apart this]
    show "\<exists>pre. prefix pre (concat (map (staged w) parts)) \<and>
               w' = w\<lparr>files := (files w)(?dst \<mapsto> c @ pre)\<rparr> \<and>
               (err = None \<longrightarrow> pre = concat (map (staged w) parts))" .
  qed
  have c4: "(\<forall>w p. open_fault ev w p = None) \<and> (\<forall>w p. read_fault ev w p = None) \<and>
          (\<forall>w p. write_fault ev w p = None) \<and> files w ?dst \<noteq> None \<and>
          (\<forall>p \<in> set parts. files w (BinPath (Session p)) \<noteq> None) \<longrightarrow>
            (\<exists>w'. ConcatUploads ev w u parts = Some (None, w'))"
  proof (rule impI)
    assume a: "(\<forall>w p. open_fault ev w p = None) \<and> (\<forall>w p. read_fault ev w p = None) \<and>
          (\<forall>w p. write_fault ev w p = None) \<and> files w ?dst \<noteq> None \<and>
          (\<forall>p \<in> set parts. files w (BinPath (Session p)) \<noteq> None)"
    then obtain c where "os_OpenFile_append ev w ?dst = Inr c"
      by (auto simp: os_OpenFile_append_def)
    then have "ConcatUploads ev w u parts = ConcatUploads_loop ev ?dst w parts"
      by (simp add: ConcatUploads_def)
    moreover have "\<exists>w'. ConcatUploads_loop ev ?dst w parts = Some (None, w')"
      using a apart by (intro ConcatUploads_loop_succeeds) simp_all
    ultimately show "\<exists>w'. ConcatUploads ev w u parts = Some (None, w')" by simp
  qed
  have c5: "\<forall>before p rest w1 e. parts = before @ p # rest \<and>
            ConcatUploads ev w u before = Some (None, w1) \<and>
            os_Open ev w1 (BinPath (Session p)) = Inl e \<longrightarrow>
            ConcatUploads ev w u parts = Some (Some e, w1) \<and>
            w1 = w\<lparr>files := (files w)(?dst \<mapsto>
                      staged w u @ concat (map (staged w) before))\<rparr>"
  proof (intro allI impI, elim conjE)
    fix before p rest w1 e
    assume split: "parts = before @ p # rest"
       and first: "ConcatUploads ev w u before = Some (None, w1)"
       and op: "os_Open ev w1 (BinPath (Session p)) = Inl e"
    from apart split have ab: "\<forall>q \<in> set before. BinPath (Session q) \<noteq> ?dst" by simp
    from ConcatUploads_opened [OF first]
    obtain c where loop: "ConcatUploads_loop ev ?dst w before = Some (None, w1)"
      and opened: "os_OpenFile_append ev w ?dst = Inr c"
      by blast
    have "ConcatUploads_loop ev ?dst w parts = Some (Some e, w1)"
      by (simp add: split ConcatUploads_loop_append [OF loop] op)
    with opened have "ConcatUploads ev w u parts = Some (Some e, w1)"
      by (simp add: ConcatUploads_def)
    with ConcatUploads_after(1) [OF ab first]
    show "ConcatUploads ev w u parts = Some (Some e, w1) \<and>
            w1 = w\<lparr>files := (files w)(?dst \<mapsto>
                      staged w u @ concat (map (staged w) before))\<rparr>"
      by simp
  qed
  have c6: "\<forall>before p rest w1 src bs e. parts = before @ p # rest \<and>
            ConcatUploads ev w u before = Some (None, w1) \<and>
            os_Open ev w1 (BinPath (Session p)) = Inr src \<and>
            io_Copy (write_fault ev w1 ?dst) src = (bs, Some e) \<longrightarrow>
            ConcatUploads ev w u parts =
              Some (Some e, w\<lparr>files := (files w)(?dst \<mapsto>
                      staged w u @ concat (map (staged w) before) @ bs)\<rparr>) \<and>
            prefix bs (staged w p)"
  proof (intro allI impI, elim conjE)
    fix before p rest w1 src bs e
    assume split: "parts = before @ p # rest"
       and first: "ConcatUploads ev w u before = Some (None, w1)"
       and op: "os_Open ev w1 (BinPath (Session p)) = Inr src"
       and cpy: "io_Copy (write_fault ev w1 ?dst) src = (bs, Some e)"
    from apart split have ab: "\<forall>q \<in> set before. BinPath (Session q) \<noteq> ?dst"
      and pd: "BinPath (Session p) \<noteq> ?dst" by simp_all
    from ConcatUploads_opened [OF first]
    obtain c where loop: "ConcatUploads_loop ev ?dst w before = Some (None, w1)"
      and opened: "os_OpenFile_append ev w ?dst = Inr c"
      by blast
    note w1 = ConcatUploads_after [OF ab first]
    have "ConcatUploads_loop ev ?dst w parts = Some (Some e, append_file ?dst bs w1)"
      by (simp add: split ConcatUploads_loop_append [OF loop] ConcatUploads_loop_step [OF pd]
            op cpy del: ConcatUploads_loop.simps(2))
    with opened have "ConcatUploads ev w u parts = Some (Some e, append_file ?dst bs w1)"
      by (simp add: ConcatUploads_def)
    moreover have "append_file ?dst bs w1 =
        w\<lparr>files := (files w)(?dst \<mapsto> staged w u @ concat (map (staged w) before) @ bs)\<rparr>"
      by (subst w1(1)) (simp add: append_file_def)
    moreover have "prefix bs (staged w p)"
    proof -
      from os_Open_Inr [OF op]
      obtain cp where cp: "files w1 (BinPath (Session p)) = Some cp" "prefix (rdata src) cp"
        by blast
      have "files w1 (BinPath (Session p)) = files w (BinPath (Session p))"
        using pd by (subst w1(1)) simp
      with cp(1) have "staged w p = cp" by (simp add: staged_def)
      with io_Copy_prefix(1) [OF cpy] cp(2) show ?thesis
        by (auto intro: prefix_order.trans)
    qed
    ultimately show "ConcatUploads ev w u parts =
              Some (Some e, w\<lparr>files := (files w)(?dst \<mapsto>
                      staged w u @ concat (map (staged w) before) @ bs)\<rparr>) \<and>
            prefix bs (staged w p)"
      by simp
  qed
  have c7: "\<forall>a b wab wba. parts = [a, b] \<and> ConcatUploads ev w u [a, b] = Some (None, wab) \<and>
            ConcatUploads ev w u [b, a] = Some (None, wba) \<longrightarrow>
            staged wab u = staged w u @ staged w a @ staged w b \<and>
            staged wba u = staged w u @ staged w b @ staged w a \<and>
            (wab = wba \<longleftrightarrow> staged w a @ staged w b = staged w b @ staged w a)"
  proof (intro allI impI, elim conjE)
    fix a b wab wba
    assume ab: "parts = [a, b]"
       and one: "ConcatUploads ev w u [a, b] = Some (None, wab)"
       and two: "ConcatUploads ev w u [b, a] = Some (None, wba)"
    from apart ab have ap1: "\<forall>p \<in> set [a, b]. BinPath (Session p) \<noteq> ?dst"
      and ap2: "\<forall>p \<in> set [b, a]. BinPath (Session p) \<noteq> ?dst" by simp_all
    note r1 = ConcatUploads_after(1) [OF ap1 one]
    note r2 = ConcatUploads_after(1) [OF ap2 two]
    have s1: "staged wab u = staged w u @ staged w a @ staged w b"
      by (subst r1) (simp add: staged_def)
    have s2: "staged wba u = staged w u @ staged w b @ staged w a"
      by (subst r2) (simp add: staged_def)
    have "wab = wba \<longleftrightarrow> staged w a @ staged w b = staged w b @ staged w a"
    proof
      assume "wab = wba"
      with s1 s2 show "staged w a @ staged w b = staged w b @ staged w a" by simp
    next
      assume "staged w a @ staged w b = staged w b @ staged w a"
      then show "wab = wba" by (subst r1, subst r2) simp
    qed
    with s1 s2 show "staged wab u = staged w u @ staged w a @ staged w b \<and>
            staged wba u = staged w u @ staged w b @ staged w a \<and>
            (wab = wba \<longleftrightarrow> staged w a @ staged w b = staged w b @ staged w a)"
      by simp
  qed
  show ?thesis
    by (intro conjI) (rule c1, rule c2, rule c3, rule c4, rule c5, rule c6, rule c7)
qed

lemma parts_paths:
  "BinPath (Session upload0) = ''uploads/up1''" "BinPath (Session upload_a) = ''uploads/partA''"
  "BinPath (Session upload_b) = ''uploads/partB''"
  "BinPath (Session upload_gone) = ''uploads/partC''"
  by (simp_all add: upload0_def upload_a_def upload_b_def upload_gone_def session0_def)

lemma parts_staged:
  "staged world_parts upload0 = []" "staged world_parts upload_a = [1, 2]"
  "staged world_parts upload_b = [3]"
  by (simp_all add: staged_def world_parts_def world0_def parts_paths)

lemma parts_apart:
  "\<forall>p \<in> set [upload_a, upload_b]. BinPath (Session p) \<noteq> BinPath (Session upload0)"
  "\<forall>p \<in> set [upload_a, upload_gone, upload_b].
     BinPath (Session p) \<noteq> BinPath (Session upload0)"
  "\<forall>p \<in> set [upload_b, upload_a]. BinPath (Session p) \<noteq> BinPath (Session upload0)"
  by (simp_all add: parts_paths)

lemma parts_no_fault:
  "(\<forall>w p. open_fault ev0 w p = None) \<and> (\<forall>w p. read_fault ev0 w p = None) \<and>
   (\<forall>w p. write_fault ev0 w p = None) \<and> files world_parts (BinPath (Session upload0)) \<noteq> None \<and>
   (\<forall>p \<in> set [upload_a, upload_b]. files world_parts (BinPath (Session p)) \<noteq> None)"
  by (simp add: ev0_def world_parts_def world0_def parts_paths)

lemma parts_opens:
  "os_OpenFile_append ev0 world_parts (BinPath (Session upload0)) = Inr []"
  by (simp add: os_OpenFile_append_def ev0_def world_parts_def world0_def parts_paths)

lemma parts_run_a:
  "ConcatUploads ev0 world_parts upload0 [upload_a] =
     Some (None, world_parts\<lparr>files := (files world_parts)(''uploads/up1'' \<mapsto> [1, 2])\<rparr>)"
  by (simp add: ConcatUploads_def os_OpenFile_append_def os_Open_def io_Copy_file_def
        io_Copy_def append_file_def ev0_def world_parts_def world0_def parts_paths)

lemma parts_gone:
  "os_Open ev0 (world_parts\<lparr>files := (files world_parts)(''uploads/up1'' \<mapsto> [1, 2])\<rparr>)
     (BinPath (Session upload_gone)) = Inl ErrNotExist"
  by (simp add: os_Open_def ev0_def world_parts_def world0_def parts_paths)

lemma parts_run_b:
  "ConcatUploads ev_bad_sector world_parts upload0 [upload_b] =
     Some (None, world_parts\<lparr>files := (files world_parts)(''uploads/up1'' \<mapsto> [3])\<rparr>)"
  by (simp add: ConcatUploads_def os_OpenFile_append_def os_Open_def io_Copy_file_def
        io_Copy_def append_file_def ev_bad_sector_def ev0_def world_parts_def world0_def
        parts_paths)

lemma parts_bad_sector:
  "os_Open ev_bad_sector
     (world_parts\<lparr>files := (files world_parts)(''uploads/up1'' \<mapsto> [3])\<rparr>)
     (BinPath (Session upload_a)) = Inr \<lparr>rdata = [1], rerr = Some (IOError ''bad sector'')\<rparr>"
  "io_Copy (write_fault ev_bad_sector
       (world_parts\<lparr>files := (files world_parts)(''uploads/up1'' \<mapsto> [3])\<rparr>)
       (BinPath (Session upload0)))
     \<lparr>rdata = [1], rerr = Some (IOError ''bad sector'')\<rparr> = ([1], Some (IOError ''bad sector''))"
  by (simp_all add: os_Open_def io_Copy_def ev_bad_sector_def ev0_def world_parts_def
        world0_def parts_paths)

theorem ConcatUploads_in_order_witness:
  "BinPath (Session upload_a) \<noteq> BinPath (Session upload0) \<and>
   BinPath (Session upload_b) \<noteq> BinPath (Session upload0) \<and>
   BinPath (Session upload_gone) \<noteq> BinPath (Session upload0) \<and>
   ConcatUploads ev0 world_parts upload0 [upload_a, upload_b] =
     Some (None, world_parts\<lparr>files := (files world_parts)(''uploads/up1'' \<mapsto> [1, 2, 3])\<rparr>) \<and>
   ConcatUploads ev0 world_parts upload0 [upload_a, upload_gone, upload_b] =
     Some (Some ErrNotExist,
           world_parts\<lparr>files := (files world_parts)(''uploads/up1'' \<mapsto> [1, 2])\<rparr>) \<and>
   ConcatUploads ev_bad_sector world_parts upload0 [upload_b, upload_a] =
     Some (Some (IOError ''bad sector''),
           world_parts\<lparr>files := (files world_parts)(''uploads/up1'' \<mapsto> [3, 1])\<rparr>)"
proof -
  note ab = ConcatUploads_in_order [OF parts_apart(1), of ev0 world_parts]
  note ab_frame = ab [THEN conjunct2, THEN conjunct2, THEN conjunct1, rule_format]
  note ab_ok = ab [THEN conjunct2, THEN conjunct2, THEN conjunct2, THEN conjunct1, rule_format]
  from ab_ok [OF parts_no_fault]
  obtain w' where run: "ConcatUploads ev0 world_parts upload0 [upload_a, upload_b] = Some (None, w')"
    by (rule exE)
  from ab_frame [OF conjI [OF parts_opens run]]
  have "w' = world_parts\<lparr>files := (files world_parts)(''uploads/up1'' \<mapsto> [1, 2, 3])\<rparr>"
    by (auto simp: parts_staged parts_paths)
  with run have r1: "ConcatUploads ev0 world_parts upload0 [upload_a, upload_b] =
     Some (None, world_parts\<lparr>files := (files world_parts)(''uploads/up1'' \<mapsto> [1, 2, 3])\<rparr>)"
    by simp
  note agb = ConcatUploads_in_order [OF parts_apart(2), of ev0 world_parts]
  note agb_open = agb [THEN conjunct2, THEN conjunct2, THEN conjunct2, THEN conjunct2,
      THEN conjunct1, rule_format]
  have split1: "[upload_a, upload_gone, upload_b] = [upload_a] @ upload_gone # [upload_b]"
    by simp
  from agb_open [OF conjI [OF split1 conjI [OF parts_run_a parts_gone]]]
  have r2: "ConcatUploads ev0 world_parts upload0 [upload_a, upload_gone, upload_b] =
     Some (Some ErrNotExist,
           world_parts\<lparr>files := (files world_parts)(''uploads/up1'' \<mapsto> [1, 2])\<rparr>)"
    by (rule conjunct1)
  note ba = ConcatUploads_in_order [OF parts_apart(3), of ev_bad_sector world_parts]
  note ba_copy = ba [THEN conjunct2, THEN conjunct2, THEN conjunct2, THEN conjunct2,
      THEN conjunct2, THEN conjunct1, rule_format]
  have split2: "[upload_b, upload_a] = [upload_b] @ upload_a # []"
    by simp
  from ba_copy [OF conjI [OF split2 conjI [OF parts_run_b conjI [OF parts_bad_sector]]]]
  have r3: "ConcatUploads ev_bad_sector world_parts upload0 [upload_b, upload_a] =
     Some (Some (IOError ''bad sector''),
           world_parts\<lparr>files := (files world_parts)(''uploads/up1'' \<mapsto> [3, 1])\<rparr>)"
    by (simp add: parts_staged parts_paths)
  from r1 r2 r3 show ?thesis
    by (simp add: parts_paths)
qed

text \<open>
  The claim C4 as it is written fails in two ways. Two different parts that hold the
  same byte give the same output in both orders. And a part staged in the file of the
  destination itself, which holds three bytes, is never read to its end: the call does
  not return.
\<close>

theorem ConcatUploads_in_order_counterexample:
  "BinPath (Session upload_a) \<noteq> BinPath (Session upload_b) \<and>
   staged world_twins upload_a = [7] \<and> staged world_twins upload_b = [7] \<and>
   ConcatUploads ev0 world_twins upload0 [upload_a, upload_b] =
     Some (None, world_twins\<lparr>files := (files world_twins)(''uploads/up1'' \<mapsto> [7, 7])\<rparr>) \<and>
   ConcatUploads ev0 world_twins upload0 [upload_b, upload_a] =
     Some (None, world_twins\<lparr>files := (files world_twins)(''uploads/up1'' \<mapsto> [7, 7])\<rparr>) \<and>
   staged world_abc upload0 = [97, 98, 99] \<and>
   ConcatUploads ev0 world_abc upload0 [upload0] = None"
  by (simp add: ConcatUploads_def os_OpenFile_append_def os_Open_def io_Copy_file_def
        io_Copy_def append_file_def staged_def ev0_def world_twins_def world_abc_def
        world0_def parts_paths)

subsection \<open>Cleanup is best effort\<close>

text \<open>
  C8. \<^verbatim>\<open>cleanup\<close> returns no error by its type, and \<^verbatim>\<open>Terminate\<close> is \<^verbatim>\<open>cleanup\<close>
  with all three steps asked for and always returns \<^verbatim>\<open>nil\<close>. A step that fails leaves
  its message in the log: removing the node, removing its link in the parent,
  copying the metadata back, removing the snapshot, and, unless the error is
  \<^verbatim>\<open>fs.ErrNotExist\<close>, removing the staging file and purging the session record. The
  steps do not depend on each other: whatever else failed, the staging file is gone
  when its removal does not fail and the session record is gone when its purge does
  not fail. When there is no node and the staging file and the session record are
  absent already, \<^verbatim>\<open>Terminate\<close> changes nothing, logs nothing and returns \<^verbatim>\<open>nil\<close>.
\<close>

theorem cleanup_best_effort:
  "fst (Terminate ev w u) = None \<and>
   Terminate ev w u = (None, cleanup ev True True True w u) \<and>
   (Node u = Some n \<and> VersionsPath (Session u) = [] \<and>
    removeItem_fault ev (node_InternalPath n) = Some e \<longrightarrow>
      LogInfo ''removing node failed'' \<in> set (logs (fst (cleanup ev True cb ci w u)))) \<and>
   (Node u = Some n \<and> VersionsPath (Session u) = [] \<and>
    remove_fault ev (filepath_Join (node_ParentPath n) (node_Name n)) = Some e \<longrightarrow>
      LogInfo ''removing node from parent failed''
        \<in> set (logs (fst (cleanup ev True cb ci w u)))) \<and>
   (Node u = Some n \<and> VersionsPath (Session u) \<noteq> [] \<and>
    copyMetadata_fault ev (VersionsPath (Session u)) (node_InternalPath n) = Some e \<longrightarrow>
      LogInfo ''renaming version node failed''
        \<in> set (logs (fst (cleanup ev True cb ci w u)))) \<and>
   (Node u = Some n \<and> VersionsPath (Session u) \<noteq> [] \<and>
    removeAll_fault ev (VersionsPath (Session u)) = Some e \<longrightarrow>
      LogInfo ''error removing version'' \<in> set (logs (fst (cleanup ev True cb ci w u)))) \<and>
   (remove_fault ev (BinPath (Session u)) = Some e \<and> \<not> errors_Is e ErrNotExist \<longrightarrow>
      LogError ''removing upload failed'' \<in> set (logs (fst (cleanup ev cn True ci w u)))) \<and>
   (purge_fault ev (ID (Session u)) = Some e \<and> \<not> errors_Is e ErrNotExist \<longrightarrow>
      LogError ''removing upload info failed''
        \<in> set (logs (fst (cleanup ev cn cb True w u)))) \<and>
   (remove_fault ev (BinPath (Session u)) = None \<longrightarrow>
      files (fst (cleanup ev cn True ci w u)) (BinPath (Session u)) = None) \<and>
   (purge_fault ev (ID (Session u)) = None \<longrightarrow>
      sessions (fst (cleanup ev cn cb True w u)) (ID (Session u)) = None) \<and>
   (Node u = None \<and> files w (BinPath (Session u)) = None \<and>
    sessions w (ID (Session u)) = None \<and>
    remove_fault ev (BinPath (Session u)) = None \<and> purge_fault ev (ID (Session u)) = None \<longrightarrow>
      Terminate ev w u = (None, w, u))"
proof -
  have t1: "fst (Terminate ev w u) = None"
    by (simp add: Terminate_def split_def)
  have t2: "Terminate ev w u = (None, cleanup ev True True True w u)"
    by (simp add: Terminate_def split_def)
  have n1: "Node u = Some n \<and> VersionsPath (Session u) = [] \<and>
      removeItem_fault ev (node_InternalPath n) = Some e \<longrightarrow>
      LogInfo ''removing node failed'' \<in> set (logs (fst (cleanup ev True cb ci w u)))"
    using cleanup_node_logs(1) cleanup_logs_node_step by blast
  have n2: "Node u = Some n \<and> VersionsPath (Session u) = [] \<and>
      remove_fault ev (filepath_Join (node_ParentPath n) (node_Name n)) = Some e \<longrightarrow>
      LogInfo ''removing node from parent failed''
        \<in> set (logs (fst (cleanup ev True cb ci w u)))"
    using cleanup_node_logs(2) cleanup_logs_node_step by blast
  have n3: "Node u = Some n \<and> VersionsPath (Session u) \<noteq> [] \<and>
      copyMetadata_fault ev (VersionsPath (Session u)) (node_InternalPath n) = Some e \<longrightarrow>
      LogInfo ''renaming version node failed''
        \<in> set (logs (fst (cleanup ev True cb ci w u)))"
    using cleanup_node_logs_version(1) cleanup_logs_node_step by blast
  have n4: "Node u = Some n \<and> VersionsPath (Session u) \<noteq> [] \<and>
      removeAll_fault ev (VersionsPath (Session u)) = Some e \<longrightarrow>
      LogInfo ''error removing version'' \<in> set (logs (fst (cleanup ev True cb ci w u)))"
    using cleanup_node_logs_version(2) cleanup_logs_node_step by blast
  have b1: "remove_fault ev (BinPath (Session u)) = Some e \<and> \<not> errors_Is e ErrNotExist \<longrightarrow>
      LogError ''removing upload failed'' \<in> set (logs (fst (cleanup ev cn True ci w u)))"
    using cleanup_logs_bin by blast
  have i1: "purge_fault ev (ID (Session u)) = Some e \<and> \<not> errors_Is e ErrNotExist \<longrightarrow>
      LogError ''removing upload info failed''
        \<in> set (logs (fst (cleanup ev cn cb True w u)))"
    using cleanup_logs_info by blast
  have b2: "remove_fault ev (BinPath (Session u)) = None \<longrightarrow>
      files (fst (cleanup ev cn True ci w u)) (BinPath (Session u)) = None"
    using cleanup_removes_staging by blast
  have i2: "purge_fault ev (ID (Session u)) = None \<longrightarrow>
      sessions (fst (cleanup ev cn cb True w u)) (ID (Session u)) = None"
    using cleanup_purges by blast
  have a1: "Node u = None \<and> files w (BinPath (Session u)) = None \<and>
      sessions w (ID (Session u)) = None \<and>
      remove_fault ev (BinPath (Session u)) = None \<and> purge_fault ev (ID (Session u)) = None \<longrightarrow>
      Terminate ev w u = (None, w, u)"
    by (simp add: t2 cleanup_nothing_left)
  show ?thesis
    by (intro conjI) (rule t1, rule t2, rule n1, rule n2, rule n3, rule n4, rule b1, rule i1,
        rule b2, rule i2, rule a1)
qed

lemma faulty_facts:
  "removeItem_fault ev_faulty p = Some (IOError ''permission denied'')"
  "remove_fault ev_faulty p = Some (IOError ''permission denied'')"
  "removeAll_fault ev_faulty p = Some (IOError ''permission denied'')"
  "copyMetadata_fault ev_faulty s t = Some (IOError ''permission denied'')"
  "purge_fault ev_faulty i = Some (IOError ''permission denied'')"
  by (simp_all add: ev_faulty_def)

lemma example_uploads:
  "Node upload_with_node = Some node0" "VersionsPath (Session upload_with_node) = []"
  "Node upload_versioned = Some node0" "VersionsPath (Session upload_versioned) \<noteq> []"
  "Node upload0 = None"
  by (simp_all add: upload_with_node_def upload_versioned_def upload_resumed_def upload0_def
        session0_def)

lemma cleaned_facts:
  "files world_cleaned (BinPath (Session upload0)) = None"
  "sessions world_cleaned (ID (Session upload0)) = None"
  "remove_fault ev0 p = None" "purge_fault ev0 i = None"
  by (simp_all add: world_cleaned_def ev0_def)

theorem cleanup_best_effort_witness:
  "fst (Terminate ev_faulty world0 upload_with_node) = None \<and>
   LogInfo ''removing node failed''
     \<in> set (logs (fst (cleanup ev_faulty True True True world0 upload_with_node))) \<and>
   LogInfo ''removing node from parent failed''
     \<in> set (logs (fst (cleanup ev_faulty True True True world0 upload_with_node))) \<and>
   LogError ''removing upload failed''
     \<in> set (logs (fst (cleanup ev_faulty True True True world0 upload_with_node))) \<and>
   LogError ''removing upload info failed''
     \<in> set (logs (fst (cleanup ev_faulty True True True world0 upload_with_node))) \<and>
   LogInfo ''renaming version node failed''
     \<in> set (logs (fst (cleanup ev_faulty True True True world_versioned upload_versioned))) \<and>
   LogInfo ''error removing version''
     \<in> set (logs (fst (cleanup ev_faulty True True True world_versioned upload_versioned))) \<and>
   files (fst (cleanup ev0 True True True world0 upload0)) (BinPath (Session upload0)) = None \<and>
   sessions (fst (cleanup ev0 True True True world0 upload0)) (ID (Session upload0)) = None \<and>
   Terminate ev0 world_cleaned upload0 = (None, world_cleaned, upload0)"
proof -
  let ?e = "IOError ''permission denied''"
  have ne: "\<not> errors_Is ?e ErrNotExist" by simp
  note a = cleanup_best_effort [where ev = ev_faulty and w = world0 and u = upload_with_node
      and n = node0 and e = ?e and cn = True and cb = True and ci = True]
  note b = cleanup_best_effort [where ev = ev_faulty and w = world_versioned
      and u = upload_versioned and n = node0 and e = ?e and cn = True and cb = True and ci = True]
  note c = cleanup_best_effort [where ev = ev0 and w = world0 and u = upload0
      and cn = True and cb = True and ci = True]
  have gone: "Node upload0 = None \<and> files world_cleaned (BinPath (Session upload0)) = None \<and>
      sessions world_cleaned (ID (Session upload0)) = None \<and>
      remove_fault ev0 (BinPath (Session upload0)) = None \<and>
      purge_fault ev0 (ID (Session upload0)) = None"
    by (simp add: example_uploads cleaned_facts)
  have "Node upload0 = None \<and> files world_cleaned (BinPath (Session upload0)) = None \<and>
      sessions world_cleaned (ID (Session upload0)) = None \<and>
      remove_fault ev0 (BinPath (Session upload0)) = None \<and>
      purge_fault ev0 (ID (Session upload0)) = None \<longrightarrow>
      Terminate ev0 world_cleaned upload0 = (None, world_cleaned, upload0)"
    using cleanup_best_effort [where ev = ev0 and w = world_cleaned and u = upload0
      and n = node0 and e = ?e and cn = True and cb = True and ci = True]
    by (elim conjE) assumption
  from this gone have d: "Terminate ev0 world_cleaned upload0 = (None, world_cleaned, upload0)"
    by (rule mp)
  from a b c ne have "fst (Terminate ev_faulty world0 upload_with_node) = None \<and>
   LogInfo ''removing node failed''
     \<in> set (logs (fst (cleanup ev_faulty True True True world0 upload_with_node))) \<and>
   LogInfo ''removing node from parent failed''
     \<in> set (logs (fst (cleanup ev_faulty True True True world0 upload_with_node))) \<and>
   LogError ''removing upload failed''
     \<in> set (logs (fst (cleanup ev_faulty True True True world0 upload_with_node))) \<and>
   LogError ''removing upload info failed''
     \<in> set (logs (fst (cleanup ev_faulty True True True world0 upload_with_node))) \<and>
   LogInfo ''renaming version node failed''
     \<in> set (logs (fst (cleanup ev_faulty True True True world_versioned upload_versioned))) \<and>
   LogInfo ''error removing version''
     \<in> set (logs (fst (cleanup ev_faulty True True True world_versioned upload_versioned))) \<and>
   files (fst (cleanup ev0 True True True world0 upload0)) (BinPath (Session upload0)) = None \<and>
   sessions (fst (cleanup ev0 True True True world0 upload0)) (ID (Session upload0)) = None"
    by (simp add: faulty_facts example_uploads cleaned_facts)
  with d show ?thesis by simp
qed

subsection \<open>A checksum mismatch\<close>

lemma hash_staging_frame:
  assumes "hash_staging ev w u = (hs, w1)"
  shows "files w1 = files w" "attrs w1 = attrs w" "sessions w1 = sessions w"
    "calls w1 = calls w"
  using assms
  by (auto simp: hash_staging_def Let_def split_def split: sum.splits option.splits)

lemma checkHash_error: "checkHash expected h = Some e \<Longrightarrow> is_ChecksumMismatch (Some e)"
  by (auto simp: checkHash_def Let_def split: if_splits)

lemma selected_check_error:
  "selected_check s a b c = Some e \<Longrightarrow> is_ChecksumMismatch (Some e)"
  by (auto simp: selected_check_def dest: checkHash_error split: if_splits)

lemma Cleanup_no_node:
  "Node u = None \<Longrightarrow> Cleanup ev w u failure keep = cleanup ev failure (\<not> keep) (\<not> keep) w u"
  by (simp add: Cleanup_def cleanup_None Let_def)

lemma Node_set_lock_context [simp]: "Node (set_lock_context u) = Node u"
  by (simp add: set_lock_context_def)

text \<open>
  C5, as the code has it. For an upload that holds no node yet and whose selected
  declared checksum does not match, \<^verbatim>\<open>FinishUpload\<close> returns the checksum mismatch,
  whatever the cleanup meets. No metadata has changed and no call has left the
  package, so no node was created and nothing was committed. The staging file is gone
  when its removal does not fail, and the session record is gone when its purge does
  not fail; a removal or a purge that fails leaves the files or the records as they
  were and, unless its error is \<^verbatim>\<open>fs.ErrNotExist\<close>, leaves its message in the log, after
  what the reading of the staging file logged.
\<close>

theorem FinishUpload_mismatch_cleans_up:
  assumes hs: "hash_staging ev w u = ((sha1h, md5h, adler32h), w1)"
      and mism: "selected_check (Session u) sha1h md5h adler32h = Some e"
      and nonode: "Node u = None"
  shows "\<exists>w' u'. FinishUpload ev w u = (Some e, w', u') \<and> is_ChecksumMismatch (Some e) \<and>
           Node u' = None \<and> attrs w' = attrs w \<and> calls w' = calls w \<and>
           files w' = (if remove_fault ev (BinPath (Session u)) = None
                       then (files w)(BinPath (Session u) := None) else files w) \<and>
           sessions w' = (if purge_fault ev (ID (Session u)) = None
                          then (sessions w)(ID (Session u) := None) else sessions w) \<and>
           logs w' = logs w1 @
             (case remove_fault ev (BinPath (Session u)) of
                Some x \<Rightarrow> if errors_Is x ErrNotExist then []
                          else [LogError ''removing upload failed'']
              | None \<Rightarrow> []) @
             (case purge_fault ev (ID (Session u)) of
                Some x \<Rightarrow> if errors_Is x ErrNotExist then []
                          else [LogError ''removing upload info failed'']
              | None \<Rightarrow> [])"
proof -
  let ?u = "set_lock_context u"
  let ?w' = "cleanup_info ev (cleanup_bin ev w1 ?u) ?u"
  have "Cleanup ev w1 ?u True False = (?w', ?u)"
    using nonode by (simp add: Cleanup_no_node cleanup_None Let_def)
  with FinishUpload_rejects [OF hs mism]
  have run: "FinishUpload ev w u = (Some e, ?w', ?u)" by simp
  have m: "is_ChecksumMismatch (Some e)"
    using mism by (rule selected_check_error)
  note frame = hash_staging_frame [OF hs]
  have a: "attrs ?w' = attrs w" and c: "calls ?w' = calls w"
    by (simp_all add: frame)
  have f: "files ?w' = (if remove_fault ev (BinPath (Session u)) = None
                       then (files w)(BinPath (Session u) := None) else files w)"
    by (simp add: cleanup_bin_files Session_set_lock_context frame)
  have s: "sessions ?w' = (if purge_fault ev (ID (Session u)) = None
                          then (sessions w)(ID (Session u) := None) else sessions w)"
    by (simp add: cleanup_info_sessions Session_set_lock_context frame)
  have l: "logs ?w' = logs w1 @
             (case remove_fault ev (BinPath (Session u)) of
                Some x \<Rightarrow> if errors_Is x ErrNotExist then []
                          else [LogError ''removing upload failed'']
              | None \<Rightarrow> []) @
             (case purge_fault ev (ID (Session u)) of
                Some x \<Rightarrow> if errors_Is x ErrNotExist then []
                          else [LogError ''removing upload info failed'']
              | None \<Rightarrow> [])"
    by (simp add: cleanup_info_logs cleanup_bin_logs Session_set_lock_context)
  have "FinishUpload ev w u = (Some e, ?w', ?u) \<and> is_ChecksumMismatch (Some e) \<and>
           Node ?u = None \<and> attrs ?w' = attrs w \<and> calls ?w' = calls w \<and>
           files ?w' = (if remove_fault ev (BinPath (Session u)) = None
                       then (files w)(BinPath (Session u) := None) else files w) \<and>
           sessions ?w' = (if purge_fault ev (ID (Session u)) = None
                          then (sessions w)(ID (Session u) := None) else sessions w) \<and>
           logs ?w' = logs w1 @
             (case remove_fault ev (BinPath (Session u)) of
                Some x \<Rightarrow> if errors_Is x ErrNotExist then []
                          else [LogError ''removing upload failed'']
              | None \<Rightarrow> []) @
             (case purge_fault ev (ID (Session u)) of
                Some x \<Rightarrow> if errors_Is x ErrNotExist then []
                          else [LogError ''removing upload info failed'']
              | None \<Rightarrow> [])"
    using run m nonode a c f s l by (intro conjI) simp_all
  then show ?thesis by blast
qed

lemma wrong_sum_hashes:
  "hash_staging ev0 world0 upload_wrong_sum =
     ((hash_Write (sha1_New ev0) [], hash_Write (md5_New ev0) [], hash_Write adler32_New []),
      world0)"
  "hash_staging ev_faulty world0 upload_wrong_sum =
     ((hash_Write (sha1_New ev0) [], hash_Write (md5_New ev0) [], hash_Write adler32_New []),
      world0)"
  by (simp_all add: hash_staging_def os_Open_def io_Copy_def ev_faulty_def ev0_def world0_def
        sha1_New_def md5_New_def upload_wrong_sum_def upload0_def session0_def)

lemma wrong_sum_mismatch:
  "selected_check (Session upload_wrong_sum) (hash_Write (sha1_New ev0) [])
      (hash_Write (md5_New ev0) []) (hash_Write adler32_New [])
     = Some (ChecksumMismatch (''invalid checksum: expected 00 got '' @
         fmt_x ''da39a3ee5e6b4b0d3255bfef95601890afd80709''))"
  by (simp add: selected_check_def checkHash_def hash_Sum_def hash_Write_def sha1_New_def
        ev0_def upload_wrong_sum_def upload0_def session0_def hex_sha1_of_empty)

lemma wrong_sum_facts:
  "Node upload_wrong_sum = None"
  "BinPath (Session upload_wrong_sum) = ''uploads/up1''" "ID (Session upload_wrong_sum) = ''up1''"
  "remove_fault ev0 p = None" "purge_fault ev0 i = None"
  by (simp_all add: upload_wrong_sum_def upload0_def session0_def ev0_def)

theorem FinishUpload_mismatch_cleans_up_witness:
  "hash_staging ev0 world0 upload_wrong_sum =
     ((hash_Write (sha1_New ev0) [], hash_Write (md5_New ev0) [], hash_Write adler32_New []),
      world0) \<and>
   selected_check (Session upload_wrong_sum) (hash_Write (sha1_New ev0) [])
      (hash_Write (md5_New ev0) []) (hash_Write adler32_New [])
     = Some (ChecksumMismatch (''invalid checksum: expected 00 got '' @
         fmt_x ''da39a3ee5e6b4b0d3255bfef95601890afd80709'')) \<and>
   Node upload_wrong_sum = None \<and>
   is_ChecksumMismatch (fst (FinishUpload ev0 world0 upload_wrong_sum)) \<and>
   files (fst (snd (FinishUpload ev0 world0 upload_wrong_sum))) = Map.empty \<and>
   sessions (fst (snd (FinishUpload ev0 world0 upload_wrong_sum))) = Map.empty \<and>
   logs (fst (snd (FinishUpload ev0 world0 upload_wrong_sum))) = [] \<and>
   is_ChecksumMismatch (fst (FinishUpload ev_faulty world0 upload_wrong_sum)) \<and>
   files (fst (snd (FinishUpload ev_faulty world0 upload_wrong_sum))) = files world0 \<and>
   sessions (fst (snd (FinishUpload ev_faulty world0 upload_wrong_sum))) = sessions world0 \<and>
   logs (fst (snd (FinishUpload ev_faulty world0 upload_wrong_sum))) =
     [LogError ''removing upload failed'', LogError ''removing upload info failed'']"
proof -
  from FinishUpload_mismatch_cleans_up
    [OF wrong_sum_hashes(1) wrong_sum_mismatch wrong_sum_facts(1)]
  have ok: "is_ChecksumMismatch (fst (FinishUpload ev0 world0 upload_wrong_sum)) \<and>
      files (fst (snd (FinishUpload ev0 world0 upload_wrong_sum))) = Map.empty \<and>
      sessions (fst (snd (FinishUpload ev0 world0 upload_wrong_sum))) = Map.empty \<and>
      logs (fst (snd (FinishUpload ev0 world0 upload_wrong_sum))) = []"
    by (auto simp: wrong_sum_facts world0_def)
  from FinishUpload_mismatch_cleans_up
    [OF wrong_sum_hashes(2) wrong_sum_mismatch wrong_sum_facts(1)]
  have bad: "is_ChecksumMismatch (fst (FinishUpload ev_faulty world0 upload_wrong_sum)) \<and>
      files (fst (snd (FinishUpload ev_faulty world0 upload_wrong_sum))) = files world0 \<and>
      sessions (fst (snd (FinishUpload ev_faulty world0 upload_wrong_sum))) = sessions world0 \<and>
      logs (fst (snd (FinishUpload ev_faulty world0 upload_wrong_sum))) =
        [LogError ''removing upload failed'', LogError ''removing upload info failed'']"
    by (auto simp: faulty_facts world0_def)
  from ok bad wrong_sum_hashes(1) wrong_sum_mismatch wrong_sum_facts(1) show ?thesis
    by simp
qed

text \<open>The claim C5 as it is written fails: cleanup is best effort, so where the
  removal of the staging file and the purge of the session record fail, the checksum
  mismatch is returned, both failures are logged, and the staging file and the session
  record are still there.\<close>

theorem FinishUpload_mismatch_counterexample:
  "is_ChecksumMismatch (fst (FinishUpload ev_faulty world0 upload_wrong_sum)) \<and>
   files (fst (snd (FinishUpload ev_faulty world0 upload_wrong_sum)))
     (BinPath (Session upload_wrong_sum)) = Some [] \<and>
   sessions (fst (snd (FinishUpload ev_faulty world0 upload_wrong_sum)))
     (ID (Session upload_wrong_sum)) = Some session0 \<and>
   logs (fst (snd (FinishUpload ev_faulty world0 upload_wrong_sum))) =
     [LogError ''removing upload failed'', LogError ''removing upload info failed'']"
  by (simp add: FinishUpload_def set_lock_context_def hash_staging_def os_Open_def io_Copy_def
        selected_check_def checkHash_def hash_Sum_def hash_Write_def adler32_New_def
        sha1_New_def md5_New_def hex_sha1_of_empty fmt_x_def
        Cleanup_def cleanup_def cleanup_bin_def cleanup_info_def
        os_Remove_def Session_Purge_def ev_faulty_def logError_def
        ev0_def world0_def upload_wrong_sum_def upload0_def session0_def Let_def)

subsection \<open>Restoring the version before the upload\<close>

lemma is_under_self [simp]: "is_under p p"
  by (simp add: is_under_def)

lemma restore_filter_allow: "restore_filter ev k v = (v, allow_listed ev k)"
  by (simp add: restore_filter_def allow_listed_def)

text \<open>The copy of the metadata as \<^verbatim>\<open>cleanup\<close> asks for it: when it fails, and what it
  leaves.\<close>

lemma copy_back_fails:
  "fst (lookup_CopyMetadata ev p t (restore_filter ev) w) = None \<longleftrightarrow>
     copyMetadata_fault ev p t = None \<and> attrs w p \<noteq> None \<and> attrs w t \<noteq> None"
  by (auto simp: lookup_CopyMetadata_def split: option.splits)

lemma copy_back_attrs:
  "attrs (snd (lookup_CopyMetadata ev p t (restore_filter ev) w)) =
     (case (copyMetadata_fault ev p t, attrs w p, attrs w t) of
        (None, Some va, Some la) \<Rightarrow> (attrs w)(t \<mapsto> la ++ (va |` {k. allow_listed ev k}))
      | _ \<Rightarrow> attrs w)"
proof -
  have same: "(\<lambda>k. case va k of None \<Rightarrow> la k
                   | Some v \<Rightarrow> (case restore_filter ev k v of
                        (v', True) \<Rightarrow> Some v' | (v', False) \<Rightarrow> la k))
        = (la ++ (va |` {k. allow_listed ev k}))" for va la
    by (rule ext)
       (simp add: map_add_def restrict_map_def restore_filter_allow split: option.splits)
  show ?thesis
    by (simp add: lookup_CopyMetadata_def same split: option.splits)
qed

text \<open>The node step for an upload that replaced a version.\<close>

lemma cleanup_node_versioned:
  assumes "VersionsPath (Session u) = p" "p \<noteq> []"
  shows "attrs (fst (cleanup_node ev n w u)) =
           (\<lambda>q. if removeAll_fault ev p = None \<and> is_under p q then None
                else attrs (snd (lookup_CopyMetadata ev p (node_InternalPath n)
                                   (restore_filter ev) w)) q)"
    and "files (fst (cleanup_node ev n w u)) =
           (\<lambda>q. if removeAll_fault ev p = None \<and> is_under p q then None else files w q)"
    and "logs (fst (cleanup_node ev n w u)) = logs w @
           (if fst (lookup_CopyMetadata ev p (node_InternalPath n) (restore_filter ev) w) = None
            then [] else [LogInfo ''renaming version node failed'']) @
           (if removeAll_fault ev p = None then [] else [LogInfo ''error removing version''])"
    and "snd (cleanup_node ev n w u) = u"
  using assms
  by (auto simp: cleanup_node_def Let_def split_def os_RemoveAll_def
        split: option.splits cong: if_cong)

text \<open>
  C7, as the code has it, for an upload that replaced a version of its node
  (\<^verbatim>\<open>VersionsPath\<close> is not empty). When the upload holds no node, a failure cleanup has
  no node step: it is the cleanup without that step, and no attribute changes. When
  the upload holds its node, the snapshot lying apart from the live node, the live
  node gets, if the copy of the metadata does not fail, its old attributes overridden
  by those attributes of the snapshot whose name carries the checksum prefix or is the
  type, blob id, blob size or modification time attribute, so every other attribute of
  the live node is what it was; if the copy fails, the attributes of the live node are
  what they were and the failure is logged. The removal of the snapshot follows in
  both cases: if it does not fail, the snapshot and what lies below it are gone with
  their metadata; if it fails, their metadata is what it was, the node step has left
  all files as they were, and the failure is logged. The metadata of everything else
  is untouched, the log holds these messages before those of the two later steps,
  and the upload keeps its node.
\<close>

theorem cleanup_restores_version:
  assumes p: "VersionsPath (Session u) \<noteq> []"
  shows "(Node u = None \<longrightarrow>
            cleanup ev True cb ci w u = cleanup ev False cb ci w u \<and>
            attrs (fst (cleanup ev True cb ci w u)) = attrs w) \<and>
         (\<forall>n. Node u = Some n \<and>
               \<not> is_under (VersionsPath (Session u)) (node_InternalPath n) \<longrightarrow>
            Node (snd (cleanup ev True cb ci w u)) = Some n \<and>
            (\<forall>va la. copyMetadata_fault ev (VersionsPath (Session u)) (node_InternalPath n) = None \<and>
               attrs w (VersionsPath (Session u)) = Some va \<and>
               attrs w (node_InternalPath n) = Some la \<longrightarrow>
               attrs (fst (cleanup ev True cb ci w u)) (node_InternalPath n)
                 = Some (la ++ (va |` {k. allow_listed ev k}))) \<and>
            (copyMetadata_fault ev (VersionsPath (Session u)) (node_InternalPath n) \<noteq> None \<or>
               attrs w (VersionsPath (Session u)) = None \<or>
               attrs w (node_InternalPath n) = None \<longrightarrow>
               attrs (fst (cleanup ev True cb ci w u)) (node_InternalPath n)
                 = attrs w (node_InternalPath n)) \<and>
            (\<forall>q. q \<noteq> node_InternalPath n \<and> \<not> is_under (VersionsPath (Session u)) q \<longrightarrow>
               attrs (fst (cleanup ev True cb ci w u)) q = attrs w q) \<and>
            (removeAll_fault ev (VersionsPath (Session u)) = None \<longrightarrow>
               (\<forall>q. is_under (VersionsPath (Session u)) q \<longrightarrow>
                  attrs (fst (cleanup ev True cb ci w u)) q = None \<and>
                  files (fst (cleanup ev True cb ci w u)) q = None)) \<and>
            (removeAll_fault ev (VersionsPath (Session u)) \<noteq> None \<longrightarrow>
               (\<forall>q. is_under (VersionsPath (Session u)) q \<longrightarrow>
                  attrs (fst (cleanup ev True cb ci w u)) q = attrs w q) \<and>
               files (fst (cleanup ev True cb ci w u)) = files (fst (cleanup ev False cb ci w u))) \<and>
            logs (fst (cleanup ev True cb ci w u)) = logs w @
              (if copyMetadata_fault ev (VersionsPath (Session u)) (node_InternalPath n) = None \<and>
                  attrs w (VersionsPath (Session u)) \<noteq> None \<and>
                  attrs w (node_InternalPath n) \<noteq> None
               then [] else [LogInfo ''renaming version node failed'']) @
              (if removeAll_fault ev (VersionsPath (Session u)) = None
               then [] else [LogInfo ''error removing version'']) @
              drop (length (logs w)) (logs (fst (cleanup ev False cb ci w u))))"
proof -
  let ?p = "VersionsPath (Session u)"
  let ?w' = "fst (cleanup ev True cb ci w u)"
  have none: "Node u = None \<longrightarrow>
      cleanup ev True cb ci w u = cleanup ev False cb ci w u \<and> attrs ?w' = attrs w"
    by (simp add: cleanup_None cleanup_keep_node Let_def)
  have some: "Node (snd (cleanup ev True cb ci w u)) = Some n \<and>
            (\<forall>va la. copyMetadata_fault ev ?p (node_InternalPath n) = None \<and>
               attrs w ?p = Some va \<and> attrs w (node_InternalPath n) = Some la \<longrightarrow>
               attrs ?w' (node_InternalPath n) = Some (la ++ (va |` {k. allow_listed ev k}))) \<and>
            (copyMetadata_fault ev ?p (node_InternalPath n) \<noteq> None \<or>
               attrs w ?p = None \<or> attrs w (node_InternalPath n) = None \<longrightarrow>
               attrs ?w' (node_InternalPath n) = attrs w (node_InternalPath n)) \<and>
            (\<forall>q. q \<noteq> node_InternalPath n \<and> \<not> is_under ?p q \<longrightarrow> attrs ?w' q = attrs w q) \<and>
            (removeAll_fault ev ?p = None \<longrightarrow>
               (\<forall>q. is_under ?p q \<longrightarrow> attrs ?w' q = None \<and> files ?w' q = None)) \<and>
            (removeAll_fault ev ?p \<noteq> None \<longrightarrow>
               (\<forall>q. is_under ?p q \<longrightarrow> attrs ?w' q = attrs w q) \<and>
               files ?w' = files (fst (cleanup ev False cb ci w u))) \<and>
            logs ?w' = logs w @
              (if copyMetadata_fault ev ?p (node_InternalPath n) = None \<and>
                  attrs w ?p \<noteq> None \<and> attrs w (node_InternalPath n) \<noteq> None
               then [] else [LogInfo ''renaming version node failed'']) @
              (if removeAll_fault ev ?p = None
               then [] else [LogInfo ''error removing version'']) @
              drop (length (logs w)) (logs (fst (cleanup ev False cb ci w u)))"
    if node: "Node u = Some n" and apart: "\<not> is_under ?p (node_InternalPath n)" for n
  proof -
    let ?t = "node_InternalPath n"
    note step = cleanup_node_versioned [OF refl p, of ev n w]
    have pt: "?t \<noteq> ?p" using apart by auto
    have a: "attrs ?w' = attrs (fst (cleanup_node ev n w u))"
      by (simp add: cleanup_Some [OF node] Let_def)
    have f: "files ?w' =
        (if cb \<and> remove_fault ev (BinPath (Session u)) = None
         then (files (fst (cleanup_node ev n w u)))(BinPath (Session u) := None)
         else files (fst (cleanup_node ev n w u)))"
      by (simp add: cleanup_Some [OF node] Let_def cleanup_bin_files step(4))
    have f0: "files (fst (cleanup ev False cb ci w u)) =
        (if cb \<and> remove_fault ev (BinPath (Session u)) = None
         then (files w)(BinPath (Session u) := None) else files w)"
      by (simp add: cleanup_keep_node Let_def cleanup_bin_files)
    have l: "logs ?w' = logs (fst (cleanup_node ev n w u)) @
        (if cb then (case remove_fault ev (BinPath (Session u)) of
                       Some e \<Rightarrow> if errors_Is e ErrNotExist then []
                                 else [LogError ''removing upload failed'']
                     | None \<Rightarrow> []) else []) @
        (if ci then (case purge_fault ev (ID (Session u)) of
                       Some e \<Rightarrow> if errors_Is e ErrNotExist then []
                                 else [LogError ''removing upload info failed'']
                     | None \<Rightarrow> []) else [])"
      by (simp add: cleanup_Some [OF node] Let_def cleanup_bin_logs cleanup_info_logs step(4))
    have l0: "drop (length (logs w)) (logs (fst (cleanup ev False cb ci w u))) =
        (if cb then (case remove_fault ev (BinPath (Session u)) of
                       Some e \<Rightarrow> if errors_Is e ErrNotExist then []
                                 else [LogError ''removing upload failed'']
                     | None \<Rightarrow> []) else []) @
        (if ci then (case purge_fault ev (ID (Session u)) of
                       Some e \<Rightarrow> if errors_Is e ErrNotExist then []
                                 else [LogError ''removing upload info failed'']
                     | None \<Rightarrow> []) else [])"
      by (simp add: cleanup_keep_node Let_def cleanup_bin_logs cleanup_info_logs)
    have s1: "Node (snd (cleanup ev True cb ci w u)) = Some n"
      by (simp add: cleanup_Some [OF node] Let_def step(4) node)
    have s2: "\<forall>va la. copyMetadata_fault ev ?p ?t = None \<and>
               attrs w ?p = Some va \<and> attrs w ?t = Some la \<longrightarrow>
               attrs ?w' ?t = Some (la ++ (va |` {k. allow_listed ev k}))"
      using apart by (simp add: a step(1) copy_back_attrs)
    have s3: "copyMetadata_fault ev ?p ?t \<noteq> None \<or> attrs w ?p = None \<or> attrs w ?t = None \<longrightarrow>
               attrs ?w' ?t = attrs w ?t"
      using apart by (auto simp: a step(1) copy_back_attrs split: option.splits)
    have s4: "\<forall>q. q \<noteq> ?t \<and> \<not> is_under ?p q \<longrightarrow> attrs ?w' q = attrs w q"
      by (auto simp: a step(1) copy_back_attrs split: option.splits)
    have s5: "removeAll_fault ev ?p = None \<longrightarrow>
               (\<forall>q. is_under ?p q \<longrightarrow> attrs ?w' q = None \<and> files ?w' q = None)"
      by (simp add: a f step(1,2))
    have s6: "removeAll_fault ev ?p \<noteq> None \<longrightarrow>
               (\<forall>q. is_under ?p q \<longrightarrow> attrs ?w' q = attrs w q) \<and>
               files ?w' = files (fst (cleanup ev False cb ci w u))"
    proof (intro impI conjI allI)
      fix q assume rm: "removeAll_fault ev ?p \<noteq> None" and q: "is_under ?p q"
      from q apart have "q \<noteq> ?t" by auto
      with rm show "attrs ?w' q = attrs w q"
        by (auto simp: a step(1) copy_back_attrs split: option.splits)
    next
      assume rm: "removeAll_fault ev ?p \<noteq> None"
      then have "files (fst (cleanup_node ev n w u)) = files w"
        by (auto simp: step(2))
      then show "files ?w' = files (fst (cleanup ev False cb ci w u))"
        by (simp only: f f0)
    qed
    have s7: "logs ?w' = logs w @
              (if copyMetadata_fault ev ?p ?t = None \<and> attrs w ?p \<noteq> None \<and> attrs w ?t \<noteq> None
               then [] else [LogInfo ''renaming version node failed'']) @
              (if removeAll_fault ev ?p = None
               then [] else [LogInfo ''error removing version'']) @
              drop (length (logs w)) (logs (fst (cleanup ev False cb ci w u)))"
      by (simp only: l l0 step(3) copy_back_fails append_assoc)
    show ?thesis
      by (intro conjI) (rule s1, rule s2, rule s3, rule s4, rule s5, rule s6, rule s7)
  qed
  show ?thesis
    using none some by blast
qed

lemma versioned_facts:
  "Node upload_versioned = Some node0"
  "VersionsPath (Session upload_versioned) = ''nodes/n1.REV.1''"
  "BinPath (Session upload_versioned) = ''uploads/up1''"
  "ID (Session upload_versioned) = ''up1''"
  "Node upload_resumed = None"
  "VersionsPath (Session upload_resumed) = ''nodes/n1.REV.1''"
  "BinPath (Session upload_resumed) = ''uploads/up1''"
  "ID (Session upload_resumed) = ''up1''"
  "node_InternalPath node0 = ''nodes/n1''"
  "attrs world_versioned ''nodes/n1.REV.1'' = Some attrs_snapshot"
  "attrs world_versioned ''nodes/n1'' = Some attrs_live"
  "files world_versioned ''nodes/n1.REV.1'' = Some []"
  "logs world_versioned = []"
  "\<not> is_under ''nodes/n1.REV.1'' ''nodes/n1''"
  by (simp_all add: upload_versioned_def upload_resumed_def upload0_def session0_def node0_def
        world_versioned_def world0_def is_under_def)

lemma versioned_faults:
  "copyMetadata_fault ev0 s t = None" "removeAll_fault ev0 p = None"
  "remove_fault ev0 p = None" "purge_fault ev0 i = None"
  "copyMetadata_fault ev_no_copy s t = Some (IOError ''permission denied'')"
  "removeAll_fault ev_no_copy p = None"
  "remove_fault ev_no_copy p = None" "purge_fault ev_no_copy i = None"
  "copyMetadata_fault ev_keep_tree s t = None"
  "removeAll_fault ev_keep_tree p = Some (IOError ''permission denied'')"
  "remove_fault ev_keep_tree p = None" "purge_fault ev_keep_tree i = None"
  by (simp_all add: ev0_def ev_no_copy_def ev_keep_tree_def)

lemma restored_attrs:
  "(attrs_live ++ (attrs_snapshot |` {k. allow_listed ev0 k})) ''user.ocis.cs.sha1'' = Some [1]"
  "(attrs_live ++ (attrs_snapshot |` {k. allow_listed ev0 k})) ''user.ocis.blobid'' = Some [1]"
  "(attrs_live ++ (attrs_snapshot |` {k. allow_listed ev0 k})) ''user.ocis.mtime'' = Some [1]"
  "(attrs_live ++ (attrs_snapshot |` {k. allow_listed ev0 k})) ''user.ocis.name'' = Some [7]"
  "(attrs_live ++ (attrs_snapshot |` {k. allow_listed ev0 k})) ''user.ocis.status'' = Some [9]"
  by (simp_all add: map_add_def restrict_map_def allow_listed_def ev0_def names0_def
        attrs_live_def attrs_snapshot_def)

text \<open>The cleanup of the versioned upload without the node step: the staging file is
  removed and nothing is logged, in each of the three surroundings.\<close>

lemma versioned_later_steps:
  assumes "remove_fault ev (BinPath (Session u)) = None" "purge_fault ev (ID (Session u)) = None"
  shows "logs (fst (cleanup ev False True True w u)) = logs w"
    and "files (fst (cleanup ev False True True w u)) = (files w)(BinPath (Session u) := None)"
  using assms
  by (simp_all add: cleanup_keep_node Let_def cleanup_bin_logs cleanup_info_logs
        cleanup_bin_files)

theorem cleanup_restores_version_witness:
  "VersionsPath (Session upload_versioned) \<noteq> [] \<and>
   Node upload_versioned = Some node0 \<and>
   \<not> is_under (VersionsPath (Session upload_versioned)) (node_InternalPath node0) \<and>
   attrs world_versioned (VersionsPath (Session upload_versioned)) = Some attrs_snapshot \<and>
   attrs world_versioned (node_InternalPath node0) = Some attrs_live \<and>
   attrs (fst (cleanup ev0 True True True world_versioned upload_versioned)) ''nodes/n1''
     = Some (attrs_live ++ (attrs_snapshot |` {k. allow_listed ev0 k})) \<and>
   (attrs_live ++ (attrs_snapshot |` {k. allow_listed ev0 k})) ''user.ocis.cs.sha1'' = Some [1] \<and>
   (attrs_live ++ (attrs_snapshot |` {k. allow_listed ev0 k})) ''user.ocis.name'' = Some [7] \<and>
   attrs (fst (cleanup ev0 True True True world_versioned upload_versioned)) ''nodes/n1.REV.1''
     = None \<and>
   files (fst (cleanup ev0 True True True world_versioned upload_versioned)) ''nodes/n1.REV.1''
     = None \<and>
   logs (fst (cleanup ev0 True True True world_versioned upload_versioned)) = [] \<and>
   attrs (fst (cleanup ev_no_copy True True True world_versioned upload_versioned)) ''nodes/n1''
     = Some attrs_live \<and>
   files (fst (cleanup ev_no_copy True True True world_versioned upload_versioned))
     ''nodes/n1.REV.1'' = None \<and>
   logs (fst (cleanup ev_no_copy True True True world_versioned upload_versioned))
     = [LogInfo ''renaming version node failed''] \<and>
   attrs (fst (cleanup ev_keep_tree True True True world_versioned upload_versioned))
     ''nodes/n1.REV.1'' = Some attrs_snapshot \<and>
   files (fst (cleanup ev_keep_tree True True True world_versioned upload_versioned))
     ''nodes/n1.REV.1'' = Some [] \<and>
   logs (fst (cleanup ev_keep_tree True True True world_versioned upload_versioned))
     = [LogInfo ''error removing version''] \<and>
   Node upload_resumed = None \<and> VersionsPath (Session upload_resumed) \<noteq> [] \<and>
   attrs (fst (cleanup ev0 True True True world_versioned upload_resumed))
     = attrs world_versioned"
proof -
  have p: "VersionsPath (Session upload_versioned) \<noteq> []"
    and p': "VersionsPath (Session upload_resumed) \<noteq> []"
    by (simp_all add: versioned_facts)
  have h: "Node upload_versioned = Some node0 \<and>
      \<not> is_under (VersionsPath (Session upload_versioned)) (node_InternalPath node0)"
    by (simp add: versioned_facts)
  have given: "attrs world_versioned (VersionsPath (Session upload_versioned)) = Some attrs_snapshot"
      "attrs world_versioned (node_InternalPath node0) = Some attrs_live"
    by (simp_all add: versioned_facts)
  note later = versioned_later_steps [where w = world_versioned and u = upload_versioned]
  from cleanup_restores_version [OF p, of ev0 True True world_versioned,
      THEN conjunct2, rule_format, OF h]
  have r1: "attrs (fst (cleanup ev0 True True True world_versioned upload_versioned)) ''nodes/n1''
        = Some (attrs_live ++ (attrs_snapshot |` {k. allow_listed ev0 k})) \<and>
      attrs (fst (cleanup ev0 True True True world_versioned upload_versioned)) ''nodes/n1.REV.1''
        = None \<and>
      files (fst (cleanup ev0 True True True world_versioned upload_versioned)) ''nodes/n1.REV.1''
        = None \<and>
      logs (fst (cleanup ev0 True True True world_versioned upload_versioned)) = []"
    by (simp add: versioned_facts versioned_faults later)
  from cleanup_restores_version [OF p, of ev_no_copy True True world_versioned,
      THEN conjunct2, rule_format, OF h]
  have r2: "attrs (fst (cleanup ev_no_copy True True True world_versioned upload_versioned))
        ''nodes/n1'' = Some attrs_live \<and>
      files (fst (cleanup ev_no_copy True True True world_versioned upload_versioned))
        ''nodes/n1.REV.1'' = None \<and>
      logs (fst (cleanup ev_no_copy True True True world_versioned upload_versioned))
        = [LogInfo ''renaming version node failed'']"
    by (simp add: versioned_facts versioned_faults later)
  from cleanup_restores_version [OF p, of ev_keep_tree True True world_versioned,
      THEN conjunct2, rule_format, OF h]
  have r3: "attrs (fst (cleanup ev_keep_tree True True True world_versioned upload_versioned))
        ''nodes/n1.REV.1'' = Some attrs_snapshot \<and>
      files (fst (cleanup ev_keep_tree True True True world_versioned upload_versioned))
        ''nodes/n1.REV.1'' = Some [] \<and>
      logs (fst (cleanup ev_keep_tree True True True world_versioned upload_versioned))
        = [LogInfo ''error removing version'']"
    by (simp add: versioned_facts versioned_faults later)
  from cleanup_restores_version [OF p', of ev0 True True world_versioned,
      THEN conjunct1, rule_format, OF versioned_facts(5)]
  have r4: "attrs (fst (cleanup ev0 True True True world_versioned upload_resumed))
      = attrs world_versioned"
    by (rule conjunct2)
  from r1 r2 r3 r4 p p' h given show ?thesis
    by (simp add: restored_attrs versioned_facts(5))
qed

text \<open>
  The claim C7 as it is written fails in three ways. An upload that replaced a version
  but holds no node, as one loaded again from its session does, gets no node step at
  all: the live node keeps the attributes of the failed upload, the snapshot stays, and
  nothing is logged. Where the copy of the metadata fails, the failure is logged, the
  live node keeps the attributes of the failed upload, and the snapshot is removed all
  the same. And where the removal of the snapshot fails, the failure is logged and the
  snapshot stays.
\<close>

theorem cleanup_restores_version_counterexample:
  "VersionsPath (Session upload_resumed) \<noteq> [] \<and>
   attrs (fst (cleanup ev0 True True True world_versioned upload_resumed)) ''nodes/n1''
     = Some attrs_live \<and>
   attrs (fst (cleanup ev0 True True True world_versioned upload_resumed)) ''nodes/n1.REV.1''
     = Some attrs_snapshot \<and>
   logs (fst (cleanup ev0 True True True world_versioned upload_resumed)) = [] \<and>
   attrs_live ''user.ocis.cs.sha1'' = Some [2] \<and>
   attrs_snapshot ''user.ocis.cs.sha1'' = Some [1] \<and>
   VersionsPath (Session upload_versioned) \<noteq> [] \<and>
   attrs (fst (cleanup ev_no_copy True True True world_versioned upload_versioned)) ''nodes/n1''
     = Some attrs_live \<and>
   attrs (fst (cleanup ev_no_copy True True True world_versioned upload_versioned))
     ''nodes/n1.REV.1'' = None \<and>
   logs (fst (cleanup ev_no_copy True True True world_versioned upload_versioned))
     = [LogInfo ''renaming version node failed''] \<and>
   attrs (fst (cleanup ev_keep_tree True True True world_versioned upload_versioned))
     ''nodes/n1.REV.1'' = Some attrs_snapshot \<and>
   files (fst (cleanup ev_keep_tree True True True world_versioned upload_versioned))
     ''nodes/n1.REV.1'' = Some [] \<and>
   logs (fst (cleanup ev_keep_tree True True True world_versioned upload_versioned))
     = [LogInfo ''error removing version'']"
proof -
  have a: "attrs (fst (cleanup ev0 True True True world_versioned upload_resumed))
        = attrs world_versioned"
      "logs (fst (cleanup ev0 True True True world_versioned upload_resumed)) = []"
    by (simp_all add: cleanup_None [OF versioned_facts(5)] Let_def cleanup_bin_logs
          cleanup_info_logs versioned_facts versioned_faults)
  note step = cleanup_node_versioned [OF versioned_facts(2), of _ node0 world_versioned]
  have b: "attrs (fst (cleanup ev_no_copy True True True world_versioned upload_versioned))
        ''nodes/n1'' = Some attrs_live"
      "attrs (fst (cleanup ev_no_copy True True True world_versioned upload_versioned))
        ''nodes/n1.REV.1'' = None"
      "logs (fst (cleanup ev_no_copy True True True world_versioned upload_versioned))
        = [LogInfo ''renaming version node failed'']"
    by (simp_all add: cleanup_Some [OF versioned_facts(1)] Let_def step copy_back_attrs
          copy_back_fails cleanup_bin_logs cleanup_info_logs versioned_facts versioned_faults)
  have c: "attrs (fst (cleanup ev_keep_tree True True True world_versioned upload_versioned))
        ''nodes/n1.REV.1'' = Some attrs_snapshot"
      "files (fst (cleanup ev_keep_tree True True True world_versioned upload_versioned))
        ''nodes/n1.REV.1'' = Some []"
      "logs (fst (cleanup ev_keep_tree True True True world_versioned upload_versioned))
        = [LogInfo ''error removing version'']"
    by (simp_all add: cleanup_Some [OF versioned_facts(1)] Let_def step copy_back_attrs
          copy_back_fails cleanup_bin_logs cleanup_info_logs cleanup_bin_files
          versioned_facts versioned_faults)
  show ?thesis
    using a b c
    by (simp add: versioned_facts attrs_live_def attrs_snapshot_def)
qed

subsection \<open>The second half of finishing an upload\<close>

lemma cleanup_calls [simp]: "calls (fst (cleanup ev cn cb ci w u)) = calls w"
  by (cases "Node u"; cases cn)
     (simp_all add: cleanup_None cleanup_Some cleanup_keep_node Let_def)





lemma CreateNodeForUpload_calls:
  "calls (snd (CreateNodeForUpload ev w u a)) = calls w @ [CallCreateNodeForUpload a]"
  by (simp add: CreateNodeForUpload_def Let_def split: sum.splits)

lemma CreateNodeForUpload_frame:
  "sessions (snd (CreateNodeForUpload ev w u a)) = sessions w"
  "logs (snd (CreateNodeForUpload ev w u a)) = logs w"
  by (simp_all add: CreateNodeForUpload_def Let_def split: sum.splits)

lemma CreateNodeForUpload_node:
  assumes "CreateNodeForUpload ev w u a = (Inr n, w2)"
  shows "\<exists>at. attrs w2 (node_InternalPath n) = Some at \<and> (\<forall>k v. a k = Some v \<longrightarrow> at k = Some v)"
  using assms
  by (auto simp: CreateNodeForUpload_def Let_def map_add_def split: sum.splits option.splits)


lemma hash_Write_nothing [simp]: "hash_Write h [] = h"
  by (simp add: hash_Write_def)

lemma set_lock_context_fields [simp]:
  "pub (set_lock_context u) = pub u" "async (set_lock_context u) = async u"
  "tknopts (set_lock_context u) = tknopts u"
  by (simp_all add: set_lock_context_def)

text \<open>
  C9. Let the comparison of the digests pass, the commit of the node succeed and leave
  the state \<open>w2\<close>, and a publisher be configured. If signing the token of the URL
  fails, \<^verbatim>\<open>FinishUpload\<close> returns the error of \<^verbatim>\<open>URL\<close> (the signing error, wrapped)
  and the state is \<open>w2\<close>; if the token is signed and publishing fails, it returns
  the error of the publisher and the state is \<open>w2\<close> with the call of the publisher on
  record. In both cases the upload holds the new node, and in \<open>w2\<close> the node has its
  metadata, the session records are those from before the call, nothing more is
  logged, and the only call made is the commit: no cleanup, no post-processing and no
  propagation.
\<close>

theorem FinishUpload_event_failure:
  assumes hs: "hash_staging ev w u = ((sha1h, md5h, adler32h), w1)"
      and ok: "selected_check (Session u) sha1h md5h adler32h = None"
      and created: "CreateNodeForUpload ev w1 (set_lock_context u)
                      (checksum_attrs ev sha1h md5h adler32h) = (Inr n, w2)"
      and pubd: "pub u = Some p"
  shows "(\<forall>se. sign_result ev (joinurl [DownloadEndpoint (tknopts u), ''tus/'', ID (Session u)])
                 = Inl se \<longrightarrow>
            FinishUpload ev w u =
              (Some (Wrap ''error signing token with claims'' se), w2,
               (set_lock_context u)\<lparr>Node := Some n\<rparr>)) \<and>
         (\<forall>tkn pe. sign_result ev (joinurl [DownloadEndpoint (tknopts u), ''tus/'', ID (Session u)])
                 = Inr tkn \<and> publish_fault ev (ID (Session u)) = Some pe \<longrightarrow>
            FinishUpload ev w u =
              (Some pe,
               called (CallPublish (ID (Session u)) (joinurl [DataGatewayEndpoint (tknopts u), tkn])) w2,
               (set_lock_context u)\<lparr>Node := Some n\<rparr>)) \<and>
         calls w2 = calls w @ [CallCreateNodeForUpload (checksum_attrs ev sha1h md5h adler32h)] \<and>
         sessions w2 = sessions w \<and> logs w2 = logs w1 \<and>
         attrs w2 (node_InternalPath n) \<noteq> None"
proof -
  let ?u = "set_lock_context u"
  let ?t = "joinurl [DownloadEndpoint (tknopts u), ''tus/'', ID (Session u)]"
  have fin: "FinishUpload ev w u = FinishUpload_commit ev w1 ?u sha1h md5h adler32h"
    by (rule FinishUpload_verified [OF hs ok])
  have c1: "\<forall>se. sign_result ev ?t = Inl se \<longrightarrow>
      FinishUpload ev w u =
        (Some (Wrap ''error signing token with claims'' se), w2, ?u\<lparr>Node := Some n\<rparr>)"
    using created pubd
    by (simp add: fin FinishUpload_commit_def publish_BytesReceived_def URL_def
          Session_set_lock_context Let_def)
  have c2: "\<forall>tkn pe. sign_result ev ?t = Inr tkn \<and> publish_fault ev (ID (Session u)) = Some pe \<longrightarrow>
      FinishUpload ev w u =
        (Some pe,
         called (CallPublish (ID (Session u)) (joinurl [DataGatewayEndpoint (tknopts u), tkn])) w2,
         ?u\<lparr>Node := Some n\<rparr>)"
    using created pubd
    by (simp add: fin FinishUpload_commit_def publish_BytesReceived_def URL_def
          Session_set_lock_context Let_def)
  have c3: "calls w2 = calls w @ [CallCreateNodeForUpload (checksum_attrs ev sha1h md5h adler32h)]"
    using CreateNodeForUpload_calls [of ev w1 ?u "checksum_attrs ev sha1h md5h adler32h"]
      created hash_staging_frame(4) [OF hs] by simp
  have c4: "sessions w2 = sessions w"
    using CreateNodeForUpload_frame(1) [of ev w1 ?u "checksum_attrs ev sha1h md5h adler32h"]
      created hash_staging_frame(3) [OF hs] by simp
  have c5: "logs w2 = logs w1"
    using CreateNodeForUpload_frame(2) [of ev w1 ?u "checksum_attrs ev sha1h md5h adler32h"]
      created by simp
  have c6: "attrs w2 (node_InternalPath n) \<noteq> None"
    using CreateNodeForUpload_node [OF created] by auto
  show ?thesis
    by (intro conjI) (rule c1, rule c2, rule c3, rule c4, rule c5, rule c6)
qed

lemma upload_pub_hashes:
  "hash_staging ev world0 upload_pub = ((sha1_New ev, md5_New ev, adler32_New), world0)"
  if "open_fault ev = (\<lambda>w p. None)" "read_fault ev = (\<lambda>w p. None)"
  using that
  by (simp add: hash_staging_def os_Open_def io_Copy_def world0_def upload_pub_def
        upload0_def session0_def)

lemma upload_pub_no_sums:
  "selected_check (Session upload_pub) a b c = None"
  by (simp add: selected_check_def upload_pub_def upload0_def session0_def)

lemma upload_pub_commit:
  "CreateNodeForUpload ev w (set_lock_context upload_pub) a =
     (Inr node0, snd (CreateNodeForUpload ev w (set_lock_context upload_pub) a))"
  if "createNode_result ev = (\<lambda>s. Inr node0)"
  using that by (simp add: CreateNodeForUpload_def Let_def)

lemma suffix_slash: "suffix ''/'' p \<longleftrightarrow> p \<noteq> [] \<and> last p = CHR ''/''"
  by (cases p rule: rev_cases) (auto simp: suffix_def)

lemma upload_pub_target:
  "joinurl [DownloadEndpoint (tknopts upload_pub), ''tus/'', ID (Session upload_pub)]
     = ''https://dl/tus/up1''"
  by (simp add: upload_pub_def upload0_def session0_def suffix_slash)

theorem FinishUpload_event_failure_witness:
  "hash_staging ev_no_sign world0 upload_pub
     = ((sha1_New ev_no_sign, md5_New ev_no_sign, adler32_New), world0) \<and>
   selected_check (Session upload_pub) (sha1_New ev_no_sign) (md5_New ev_no_sign) adler32_New
     = None \<and>
   pub upload_pub = Some ''bus'' \<and>
   sign_result ev_no_sign ''https://dl/tus/up1'' = Inl (IOError ''key is invalid'') \<and>
   FinishUpload ev_no_sign world0 upload_pub =
     (Some (Wrap ''error signing token with claims'' (IOError ''key is invalid'')),
      snd (CreateNodeForUpload ev_no_sign world0 (set_lock_context upload_pub)
             (checksum_attrs ev_no_sign (sha1_New ev_no_sign) (md5_New ev_no_sign) adler32_New)),
      (set_lock_context upload_pub)\<lparr>Node := Some node0\<rparr>) \<and>
   sign_result ev_no_bus ''https://dl/tus/up1'' = Inr ''tkn'' \<and>
   publish_fault ev_no_bus ''up1'' = Some (IOError ''bus is down'') \<and>
   FinishUpload ev_no_bus world0 upload_pub =
     (Some (IOError ''bus is down''),
      called (CallPublish ''up1'' ''https://gw/tkn'')
        (snd (CreateNodeForUpload ev_no_bus world0 (set_lock_context upload_pub)
               (checksum_attrs ev_no_bus (sha1_New ev_no_bus) (md5_New ev_no_bus) adler32_New))),
      (set_lock_context upload_pub)\<lparr>Node := Some node0\<rparr>)"
proof -
  have p: "pub upload_pub = Some ''bus''"
    by (simp add: upload_pub_def)
  have h1: "hash_staging ev_no_sign world0 upload_pub
      = ((sha1_New ev_no_sign, md5_New ev_no_sign, adler32_New), world0)"
    by (rule upload_pub_hashes) (simp_all add: ev_no_sign_def ev0_def)
  have h2: "hash_staging ev_no_bus world0 upload_pub
      = ((sha1_New ev_no_bus, md5_New ev_no_bus, adler32_New), world0)"
    by (rule upload_pub_hashes) (simp_all add: ev_no_bus_def ev0_def)
  have c1: "createNode_result ev_no_sign = (\<lambda>s. Inr node0)"
    and c2: "createNode_result ev_no_bus = (\<lambda>s. Inr node0)"
    by (simp_all add: ev_no_sign_def ev_no_bus_def ev0_def)
  have s1: "sign_result ev_no_sign ''https://dl/tus/up1'' = Inl (IOError ''key is invalid'')"
    and s2: "sign_result ev_no_bus ''https://dl/tus/up1'' = Inr ''tkn''"
    and b2: "publish_fault ev_no_bus ''up1'' = Some (IOError ''bus is down'')"
    by (simp_all add: ev_no_sign_def ev_no_bus_def ev0_def)
  have ids: "ID (Session upload_pub) = ''up1''"
      "joinurl [DataGatewayEndpoint (tknopts upload_pub), ''tkn''] = ''https://gw/tkn''"
    by (simp_all add: upload_pub_def upload0_def session0_def suffix_slash)
  note t1 = FinishUpload_event_failure [OF h1 upload_pub_no_sums upload_pub_commit [OF c1] p,
      unfolded upload_pub_target]
  from t1 [THEN conjunct1, rule_format, OF s1]
  have r1: "FinishUpload ev_no_sign world0 upload_pub =
     (Some (Wrap ''error signing token with claims'' (IOError ''key is invalid'')),
      snd (CreateNodeForUpload ev_no_sign world0 (set_lock_context upload_pub)
             (checksum_attrs ev_no_sign (sha1_New ev_no_sign) (md5_New ev_no_sign) adler32_New)),
      (set_lock_context upload_pub)\<lparr>Node := Some node0\<rparr>)" .
  note t2 = FinishUpload_event_failure [OF h2 upload_pub_no_sums upload_pub_commit [OF c2] p,
      unfolded upload_pub_target ids(1)]
  have s2j: "sign_result ev_no_bus t = Inr ''tkn''" for t
    by (simp add: ev_no_bus_def ev0_def)
  from t2 [THEN conjunct2, THEN conjunct1, rule_format, OF conjI, OF s2j b2]
  have "FinishUpload ev_no_bus world0 upload_pub =
     (Some (IOError ''bus is down''),
      called (CallPublish ''up1'' (joinurl [DataGatewayEndpoint (tknopts upload_pub), ''tkn'']))
        (snd (CreateNodeForUpload ev_no_bus world0 (set_lock_context upload_pub)
               (checksum_attrs ev_no_bus (sha1_New ev_no_bus) (md5_New ev_no_bus) adler32_New))),
      (set_lock_context upload_pub)\<lparr>Node := Some node0\<rparr>)" .
  then have r2: "FinishUpload ev_no_bus world0 upload_pub =
     (Some (IOError ''bus is down''),
      called (CallPublish ''up1'' ''https://gw/tkn'')
        (snd (CreateNodeForUpload ev_no_bus world0 (set_lock_context upload_pub)
               (checksum_attrs ev_no_bus (sha1_New ev_no_bus) (md5_New ev_no_bus) adler32_New))),
      (set_lock_context upload_pub)\<lparr>Node := Some node0\<rparr>)"
    by (simp only: ids(2))
  from h1 upload_pub_no_sums p s1 r1 s2 b2 r2 show ?thesis
    by (intro conjI)
qed









end
